theory Spec2Isabelle
  imports Complex_Main "HOL-Library.AList" "HOL-Library.Multiset" "HOL-Library.Word"
begin

section \<open>Python values and text helpers\<close>

text \<open>
  The tool is a Python program. Its exceptions are values of \<open>error\<close>; a function that
  can raise returns \<open>error + 'a\<close> with \<open>Inl\<close> for the raise. A Python \<open>str\<close> is a
  \<open>string\<close> whose characters are the code points 0..255 (the text of the catalog file is
  ASCII in practice); code points beyond 255 are outside the model.
\<close>

datatype error = ValueError | KeyError | IndexError | AttributeError

text \<open>\<open>str.isspace\<close> and the regular-expression class \<open>\s\<close> on code points 0..255.\<close>

definition is_space :: "char \<Rightarrow> bool" where
  "is_space c =
     (let n = (of_char c :: nat)
      in (9 \<le> n \<and> n \<le> 13) \<or> (28 \<le> n \<and> n \<le> 32) \<or> n = 133 \<or> n = 160)"

text \<open>The regular-expression class \<open>\d\<close> on code points 0..255.\<close>

definition is_digit :: "char \<Rightarrow> bool" where
  "is_digit c = (let n = (of_char c :: nat) in 48 \<le> n \<and> n \<le> 57)"

text \<open>\<open>str.lower\<close> on one code point of 0..255.\<close>

definition lower_char :: "char \<Rightarrow> char" where
  "lower_char c =
     (let n = (of_char c :: nat)
      in if (65 \<le> n \<and> n \<le> 90) \<or> (192 \<le> n \<and> n \<le> 214) \<or> (216 \<le> n \<and> n \<le> 222)
         then char_of (n + 32) else c)"

definition lower :: "string \<Rightarrow> string" where
  "lower s = map lower_char s"

text \<open>A literal of a pattern, matched at the start of the text: the rest after it.\<close>

fun strip_prefix :: "string \<Rightarrow> string \<Rightarrow> string option" where
  "strip_prefix [] s = Some s"
| "strip_prefix (p # ps) [] = None"
| "strip_prefix (p # ps) (c # cs) = (if p = c then strip_prefix ps cs else None)"

text \<open>The same under \<open>re.IGNORECASE\<close>; the literal is given in lower case.\<close>

fun strip_prefix_ci :: "string \<Rightarrow> string \<Rightarrow> string option" where
  "strip_prefix_ci [] s = Some s"
| "strip_prefix_ci (p # ps) [] = None"
| "strip_prefix_ci (p # ps) (c # cs) =
     (if p = lower_char c then strip_prefix_ci ps cs else None)"

text \<open>
  \<open>re.search\<close>: the pattern is tried at every position from the left, the first
  position where it matches wins. The pattern is given by its matcher at a position.
\<close>

fun re_search :: "(string \<Rightarrow> 'a option) \<Rightarrow> string \<Rightarrow> 'a option" where
  "re_search m [] = m []"
| "re_search m (c # cs) =
     (case m (c # cs) of Some g \<Rightarrow> Some g | None \<Rightarrow> re_search m cs)"

text \<open>The Python test \<open>sub in s\<close> on strings.\<close>

definition py_in :: "string \<Rightarrow> string \<Rightarrow> bool" where
  "py_in sub s = (re_search (strip_prefix sub) s \<noteq> None)"

text \<open>
  The pattern fragment \<open>([^x]+)x\<close> for a closing character \<open>x\<close>: the longest run of
  other characters, which must not be empty and must be followed by \<open>x\<close>.
\<close>

definition delimited :: "char \<Rightarrow> string \<Rightarrow> string option" where
  "delimited close s =
     (let g = takeWhile (\<lambda>c. c \<noteq> close) s
      in if g \<noteq> [] \<and> dropWhile (\<lambda>c. c \<noteq> close) s \<noteq> [] then Some g else None)"

text \<open>The pattern fragment \<open>KEY\s*=\s*\<close>: the rest of the text after it.\<close>

definition match_key_eq :: "string \<Rightarrow> string \<Rightarrow> string option" where
  "match_key_eq key s =
     (case strip_prefix key s of
        None \<Rightarrow> None
      | Some r \<Rightarrow>
          (case strip_prefix ''='' (dropWhile is_space r) of
             None \<Rightarrow> None
           | Some r' \<Rightarrow> Some (dropWhile is_space r')))"

text \<open>\<open>Guid\s*=\s*{([^}]+)}\<close> at a position.\<close>

definition match_guid :: "string \<Rightarrow> string option" where
  "match_guid s =
     (case match_key_eq ''Guid'' s of
        None \<Rightarrow> None
      | Some r \<Rightarrow>
          (case strip_prefix ''{'' r of None \<Rightarrow> None | Some r' \<Rightarrow> delimited (CHR ''}'') r'))"

text \<open>\<open>replaces\s*{([^}]+)}\<close> with \<open>re.IGNORECASE\<close>, at a position.\<close>

definition match_replaces :: "string \<Rightarrow> string option" where
  "match_replaces s =
     (case strip_prefix_ci ''replaces'' s of
        None \<Rightarrow> None
      | Some r \<Rightarrow>
          (case strip_prefix ''{'' (dropWhile is_space r) of
             None \<Rightarrow> None
           | Some r' \<Rightarrow> delimited (CHR ''}'') r'))"

text \<open>\<open>Name\s*=\s*"([^"]+)"\<close> at a position.\<close>

definition match_name :: "string \<Rightarrow> string option" where
  "match_name s =
     (case match_key_eq ''Name'' s of
        None \<Rightarrow> None
      | Some r \<Rightarrow>
          (case strip_prefix [CHR 0x22] r of
             None \<Rightarrow> None
           | Some r' \<Rightarrow> delimited (CHR 0x22) r'))"

text \<open>\<open>KEY\s*=\s*\(([^)]+)\)\<close> at a position, for \<open>HWRev\<close> and \<open>FWRev\<close>.\<close>

definition match_rev :: "string \<Rightarrow> string \<Rightarrow> string option" where
  "match_rev key s =
     (case match_key_eq key s of
        None \<Rightarrow> None
      | Some r \<Rightarrow>
          (case strip_prefix ''('' r of None \<Rightarrow> None | Some r' \<Rightarrow> delimited (CHR '')'') r'))"

text \<open>
  \<open>KEY\s*=\s*(\d+)\s+(\d+)\s+([\d.]+)\<close> at a position, for \<open>Out\<close> and \<open>DeviceRes\<close>:
  the three groups as text. Every class is disjoint from the one after it, so the greedy
  match is the only one.
\<close>

definition match_res :: "string \<Rightarrow> string \<Rightarrow> (string \<times> string \<times> string) option" where
  "match_res key s =
     (case match_key_eq key s of
        None \<Rightarrow> None
      | Some r \<Rightarrow>
          (let w = takeWhile is_digit r; r1 = dropWhile is_digit r;
               r2 = dropWhile is_space r1;
               h = takeWhile is_digit r2; r3 = dropWhile is_digit r2;
               r4 = dropWhile is_space r3;
               f = takeWhile (\<lambda>c. is_digit c \<or> c = CHR ''.'') r4
           in if w \<noteq> [] \<and> takeWhile is_space r1 \<noteq> [] \<and> h \<noteq> []
                 \<and> takeWhile is_space r3 \<noteq> [] \<and> f \<noteq> []
              then Some (w, h, f) else None))"

text \<open>
  \<open>int(s)\<close> on a run of decimal digits. CPython refuses a text of more than 4300 digits
  with a ValueError (its default limit for integer string conversion).
\<close>

definition digits_value :: "string \<Rightarrow> int" where
  "digits_value s = foldl (\<lambda>a c. 10 * a + (int (of_char c) - 48)) 0 s"

definition py_int :: "string \<Rightarrow> error + int" where
  "py_int s = (if 4300 < length s then Inl ValueError else Inr (digits_value s))"

text \<open>
  \<open>float(s)\<close> on a run of digits and dots: a ValueError unless there is at most one dot
  and at least one digit. The value is kept as the exact decimal; the rounding of
  \<open>float\<close> to binary64 is not modelled.
\<close>

definition py_float :: "string \<Rightarrow> error + rat" where
  "py_float s =
     (if 1 < length (filter (\<lambda>c. c = CHR ''.'') s) \<or> filter is_digit s = []
      then Inl ValueError
      else Inr (of_int (digits_value (filter is_digit s))
                / 10 ^ length (drop 1 (dropWhile (\<lambda>c. c \<noteq> CHR ''.'') s))))"

text \<open>
  \<open>str.split()\<close> with no argument: the maximal runs of characters that are not
  whitespace. \<open>cur\<close> is the run being read, reversed.
\<close>

fun split_acc :: "string \<Rightarrow> string \<Rightarrow> string list" where
  "split_acc cur [] = (if cur = [] then [] else [rev cur])"
| "split_acc cur (c # cs) =
     (if is_space c
      then (if cur = [] then split_acc [] cs else rev cur # split_acc [] cs)
      else split_acc (c # cur) cs)"

definition py_split :: "string \<Rightarrow> string list" where
  "py_split s = split_acc [] s"

section \<open>FormatsDefParser\<close>

text \<open>
  \<open>re.findall(r'\[Format\](.*?)\[Format end\]', content, re.DOTALL)\<close>: the text
  before the first occurrence of the closing literal, and the text after it.
\<close>

fun split_at :: "string \<Rightarrow> string \<Rightarrow> (string \<times> string) option" where
  "split_at lit [] = (case strip_prefix lit [] of Some r \<Rightarrow> Some ([], r) | None \<Rightarrow> None)"
| "split_at lit (c # cs) =
     (case strip_prefix lit (c # cs) of
        Some r \<Rightarrow> Some ([], r)
      | None \<Rightarrow> (case split_at lit cs of None \<Rightarrow> None | Some (b, r) \<Rightarrow> Some (c # b, r)))"

function find_format_blocks :: "string \<Rightarrow> string list" where
  "find_format_blocks [] = []"
| "find_format_blocks (c # cs) =
     (case strip_prefix ''[Format]'' (c # cs) of
        None \<Rightarrow> find_format_blocks cs
      | Some r \<Rightarrow>
          (case split_at ''[Format end]'' r of
             None \<Rightarrow> find_format_blocks cs
           | Some (body, rest) \<Rightarrow> body # find_format_blocks rest))"
  by pat_completeness auto
termination
proof (relation "measure length", goal_cases)
  case (4 c cs r x2 body rest)
  have sp: "strip_prefix p s = Some t \<Longrightarrow> length t \<le> length s" for p s t
    by (induction p s rule: strip_prefix.induct) (auto split: if_splits)
  have sa: "split_at lit s = Some (u, t) \<Longrightarrow> length t \<le> length s" for lit s u t
  proof (induction s arbitrary: u)
    case Nil
    then show ?case by (auto split: option.splits dest: sp)
  next
    case (Cons a s)
    then show ?case by (fastforce split: option.splits dest: sp)
  qed
  from 4(1) have "length r < length (c # cs)"
    by (auto split: if_splits dest!: sp)
  moreover from 4(2,3) have "length rest \<le> length r"
    by (auto dest: sa)
  ultimately show ?case by simp
qed simp_all

text \<open>
  The dict \<open>format_info\<close> of one block. The key \<open>guid\<close> is always set; a key that the
  block does not set is \<open>None\<close>. The fields are the dict's keys with the prefix \<open>fmt_\<close>.
\<close>

record format_info =
  fmt_guid :: string
  fmt_name :: "string option"
  fmt_width :: "int option"
  fmt_height :: "int option"
  fmt_fps :: "rat option"
  fmt_hwrev :: "string option"
  fmt_fwrev :: "string option"
  fmt_device_width :: "int option"
  fmt_device_height :: "int option"
  fmt_device_fps :: "rat option"

text \<open>
  The conversions \<open>int(group(1))\<close>, \<open>int(group(2))\<close>, \<open>float(group(3))\<close> of a match
  of \<open>Out\<close> or \<open>DeviceRes\<close>, in this order; no match sets no key.
\<close>

definition convert_res ::
  "(string \<times> string \<times> string) option \<Rightarrow> error + (int \<times> int \<times> rat) option" where
  "convert_res m =
     (case m of
        None \<Rightarrow> Inr None
      | Some (w, h, f) \<Rightarrow>
          (case py_int w of
             Inl e \<Rightarrow> Inl e
           | Inr wi \<Rightarrow>
               (case py_int h of
                  Inl e \<Rightarrow> Inl e
                | Inr hi \<Rightarrow>
                    (case py_float f of
                       Inl e \<Rightarrow> Inl e
                     | Inr fv \<Rightarrow> Inr (Some (wi, hi, fv))))))"

text \<open>
  Lines 72 to 99 of the loop body: the keys of a block that is not deprecated. A
  conversion that raises ends the whole parse.
\<close>

definition extract_fields :: "string \<Rightarrow> string \<Rightarrow> error + format_info" where
  "extract_fields guid block =
     (case convert_res (re_search (match_res ''Out'') block) of
        Inl e \<Rightarrow> Inl e
      | Inr out \<Rightarrow>
          (case convert_res (re_search (match_res ''DeviceRes'') block) of
             Inl e \<Rightarrow> Inl e
           | Inr dev \<Rightarrow>
               Inr \<lparr>fmt_guid = guid,
                    fmt_name = re_search match_name block,
                    fmt_width = map_option fst out,
                    fmt_height = map_option (fst \<circ> snd) out,
                    fmt_fps = map_option (snd \<circ> snd) out,
                    fmt_hwrev = re_search (match_rev ''HWRev'') block,
                    fmt_fwrev = re_search (match_rev ''FWRev'') block,
                    fmt_device_width = map_option fst dev,
                    fmt_device_height = map_option (fst \<circ> snd) dev,
                    fmt_device_fps = map_option (snd \<circ> snd) dev\<rparr>))"

text \<open>
  The state of the loop: the dict \<open>formats_by_guid\<close>, in insertion order (assigning to a
  key that is present keeps its place), and the set \<open>deprecated_guids\<close>.
\<close>

type_synonym parse_state = "(string \<times> format_info) list \<times> string set"

definition deprecation_marker :: string where
  "deprecation_marker = ''this format is deprecated''"

text \<open>
  The three tests of the loop body on a block: the search for the GUID, the test for the
  deprecation marker, and the search for a reference to a replaced format.
\<close>

definition guid_match :: "string \<Rightarrow> string option" where
  "guid_match block = re_search match_guid block"

definition is_deprecated :: "string \<Rightarrow> bool" where
  "is_deprecated block = py_in deprecation_marker (lower block)"

definition replace_match :: "string \<Rightarrow> string option" where
  "replace_match block = re_search match_replaces block"

text \<open>One pass of the loop body over a block.\<close>

definition process_block :: "string \<Rightarrow> parse_state \<Rightarrow> error + parse_state" where
  "process_block block st =
     (case st of (formats_by_guid, deprecated_guids) \<Rightarrow>
        (case guid_match block of
           None \<Rightarrow> Inr (formats_by_guid, deprecated_guids)
         | Some guid \<Rightarrow>
             if is_deprecated block
             then Inr (formats_by_guid, insert guid deprecated_guids)
             else
               (let deprecated_guids' =
                      (case replace_match block of
                         None \<Rightarrow> deprecated_guids
                       | Some replaced_guid \<Rightarrow> insert replaced_guid deprecated_guids)
                in case extract_fields guid block of
                     Inl e \<Rightarrow> Inl e
                   | Inr format_info \<Rightarrow>
                       Inr (AList.update guid format_info formats_by_guid,
                            deprecated_guids'))))"

fun parse_loop :: "string list \<Rightarrow> parse_state \<Rightarrow> error + parse_state" where
  "parse_loop [] st = Inr st"
| "parse_loop (block # blocks) st =
     (case process_block block st of
        Inl e \<Rightarrow> Inl e
      | Inr st' \<Rightarrow> parse_loop blocks st')"

text \<open>The list comprehension that keeps the formats whose GUID is not deprecated.\<close>

definition retained :: "parse_state \<Rightarrow> format_info list" where
  "retained st =
     (case st of (formats_by_guid, deprecated_guids) \<Rightarrow>
        map snd (filter (\<lambda>(guid, fmt). guid \<notin> deprecated_guids) formats_by_guid))"

text \<open>The body of \<open>parse_formats_file\<close> on the blocks found, and on the text of the file.\<close>

definition parse_blocks :: "string list \<Rightarrow> error + format_info list" where
  "parse_blocks blocks =
     (case parse_loop blocks ([], {}) of
        Inl e \<Rightarrow> Inl e
      | Inr st \<Rightarrow> Inr (retained st))"

definition parse_formats_file :: "string \<Rightarrow> error + format_info list" where
  "parse_formats_file content = parse_blocks (find_format_blocks content)"

text \<open>
  The constructor: \<open>self.formats\<close> is \<open>[]\<close> and stays so when the file cannot be read
  (\<open>None\<close>) or the parse raises; the exception is caught and printed.
\<close>

definition FormatsDefParser :: "string option \<Rightarrow> format_info list" where
  "FormatsDefParser file =
     (case file of
        None \<Rightarrow> []
      | Some content \<Rightarrow>
          (case parse_formats_file content of Inl e \<Rightarrow> [] | Inr formats \<Rightarrow> formats))"

text \<open>The same for a list of blocks in place of the text they are found in.\<close>

definition formats_of_blocks :: "string list \<Rightarrow> format_info list" where
  "formats_of_blocks blocks =
     (case parse_blocks blocks of Inl e \<Rightarrow> [] | Inr formats \<Rightarrow> formats)"

fun get_formats_by_resolution :: "format_info list \<Rightarrow> int \<Rightarrow> int \<Rightarrow> format_info list" where
  "get_formats_by_resolution [] width height = []"
| "get_formats_by_resolution (fmt # formats) width height =
     (if fmt_width fmt = Some width \<and> fmt_height fmt = Some height
      then fmt # get_formats_by_resolution formats width height
      else get_formats_by_resolution formats width height)"

definition get_all_formats :: "format_info list \<Rightarrow> format_info list" where
  "get_all_formats formats = formats"

text \<open>
  \<open>get_formats_grouped_by_model\<close>: the dict \<open>models\<close> in insertion order. \<open>fmt['name']\<close>
  raises KeyError when the key is not set.
\<close>

definition append_to_model ::
  "string \<Rightarrow> format_info \<Rightarrow> (string \<times> format_info list) list
   \<Rightarrow> (string \<times> format_info list) list" where
  "append_to_model model_name fmt models =
     map (\<lambda>(k, v). if k = model_name then (k, v @ [fmt]) else (k, v))
       (if model_name \<notin> fst ` set models then models @ [(model_name, [])] else models)"

fun group_loop ::
  "format_info list \<Rightarrow> (string \<times> format_info list) list
   \<Rightarrow> error + (string \<times> format_info list) list" where
  "group_loop [] models = Inr models"
| "group_loop (fmt # formats) models =
     (case fmt_name fmt of
        None \<Rightarrow> Inl KeyError
      | Some name \<Rightarrow>
          (case py_split name of
             [] \<Rightarrow> group_loop formats models
           | model_name # _ \<Rightarrow> group_loop formats (append_to_model model_name fmt models)))"

definition get_formats_grouped_by_model ::
  "format_info list \<Rightarrow> error + (string \<times> format_info list) list" where
  "get_formats_grouped_by_model formats = group_loop formats []"

section \<open>The device library and CameraManager\<close>

text \<open>
  The library \<open>libirimager.dll\<close> is not part of the tool. The model records every call
  made through \<open>self.libir\<close>, in order, and takes what the library answers as an input.
  Values of C type \<open>int\<close> arrive in Python as unbounded integers; the tool computes with
  them as such.
\<close>

datatype sdk_call =
    Usb_init string
  | Get_thermal_image_size
  | Get_palette_image_size
  | Get_serial
  | Get_thermal_palette_image_metadata
  | Set_palette int
  | Set_shutter_mode int
  | Trigger_shutter_flag
  | Terminate

text \<open>
  The functions of the library that the tool names, in the order in which
  \<open>init_library\<close> looks them up to declare their prototypes.
\<close>

datatype sdk_function =
    F_usb_init
  | F_get_thermal_image_size
  | F_get_palette_image_size
  | F_get_thermal_palette_image_metadata
  | F_set_palette
  | F_set_shutter_mode
  | F_trigger_shutter_flag
  | F_to_palette_save_png
  | F_to_palette_save_png_high_precision
  | F_terminate
  | F_get_serial

definition prototypes :: "sdk_function list" where
  "prototypes =
     [F_usb_init, F_get_thermal_image_size, F_get_palette_image_size,
      F_get_thermal_palette_image_metadata, F_set_palette, F_set_shutter_mode,
      F_trigger_shutter_flag, F_to_palette_save_png, F_to_palette_save_png_high_precision,
      F_terminate, F_get_serial]"

text \<open>
  \<open>libir\<close> is \<open>None\<close> while \<open>self.libir\<close> is None; once \<open>ct.CDLL\<close> has returned it
  holds the library object, given by the functions the library exports. \<open>cm_formats\<close>
  is the list \<open>self.formats_parser.formats\<close> of the manager's own parser.
\<close>

record camera_manager =
  libir :: "sdk_function set option"
  cm_formats :: "format_info list"
  available_formats :: "format_info list"
  sdk_calls :: "sdk_call list"

text \<open>
  \<open>ct.CDLL\<close> raises when the library cannot be loaded; a library that loads exports
  some of the functions.
\<close>

datatype dll_load = Dll_missing | Dll_loaded "sdk_function set"

text \<open>What the library answers while a camera is initialised.\<close>

record init_response =
  dll :: dll_load
  usb_init_ret :: int
  thermal_size :: "int \<times> int"
  palette_size :: "int \<times> int"
  serial_ret :: int
  serial_value :: "32 word"
  set_palette_ret :: int
  set_shutter_mode_ret :: int

text \<open>The dict that \<open>CameraManager.init_camera\<close> returns.\<close>

record camera_info =
  info_thermal_width :: int
  info_thermal_height :: int
  info_palette_width :: int
  info_palette_height :: int
  info_serial :: nat

text \<open>
  \<open>init_library\<close>: the library object is assigned to \<open>self.libir\<close> first; the look-up
  of a function that the library does not export then raises AttributeError, which the
  method catches to return \<open>False\<close>, leaving \<open>self.libir\<close> assigned.
\<close>

definition init_library :: "dll_load \<Rightarrow> camera_manager \<Rightarrow> bool \<times> camera_manager" where
  "init_library d cm =
     (case d of
        Dll_missing \<Rightarrow> (False, cm)
      | Dll_loaded exports \<Rightarrow> (set prototypes \<subseteq> exports, cm\<lparr>libir := Some exports\<rparr>))"

text \<open>Whether the attribute look-up \<open>self.libir.f\<close> of a function succeeds.\<close>

definition exported :: "sdk_function \<Rightarrow> camera_manager \<Rightarrow> bool" where
  "exported f cm = (case libir cm of None \<Rightarrow> False | Some exports \<Rightarrow> f \<in> exports)"

text \<open>
  \<open>CameraManager.init_camera\<close>; \<open>None\<close> is the result \<open>False\<close>, also when a call
  raises AttributeError inside the \<open>try\<close>. Its print statements are left out.
\<close>

definition CameraManager_init_camera ::
  "init_response \<Rightarrow> string \<Rightarrow> camera_manager \<Rightarrow> camera_info option \<times> camera_manager" where
  "CameraManager_init_camera r xml_path cm =
     (case (if libir cm = None then init_library (dll r) cm else (True, cm)) of
        (loaded, cm1) \<Rightarrow>
          if \<not> loaded then (None, cm1)
          else if \<not> exported F_usb_init cm1 then (None, cm1)
          else
            (let cm2 = cm1\<lparr>sdk_calls := sdk_calls cm1 @ [Usb_init xml_path]\<rparr>
             in if usb_init_ret r \<noteq> 0 then (None, cm2)
                else if \<not> exported F_get_thermal_image_size cm2 then (None, cm2)
                else
                  (let cm3 = cm2\<lparr>sdk_calls := sdk_calls cm2 @ [Get_thermal_image_size]\<rparr>
                   in if \<not> exported F_get_palette_image_size cm3 then (None, cm3)
                      else
                        (let cm4 = cm3\<lparr>sdk_calls :=
                                         sdk_calls cm3 @ [Get_palette_image_size]\<rparr>
                         in if \<not> exported F_get_serial cm4 then (None, cm4)
                            else
                              (let cm5 = cm4\<lparr>sdk_calls := sdk_calls cm4 @ [Get_serial]\<rparr>;
                                   matching = get_formats_by_resolution (cm_formats cm5)
                                                (fst (thermal_size r)) (snd (thermal_size r));
                                   cm6 = cm5\<lparr>available_formats :=
                                           (if matching = []
                                            then get_all_formats (cm_formats cm5)
                                            else matching)\<rparr>
                               in (Some \<lparr>info_thermal_width = fst (thermal_size r),
                                         info_thermal_height = snd (thermal_size r),
                                         info_palette_width = fst (palette_size r),
                                         info_palette_height = snd (palette_size r),
                                         info_serial =
                                           (if serial_ret r = 0 then unat (serial_value r)
                                            else 0)\<rparr>,
                                   cm6))))))"


text \<open>
  The window is shown only after its constructor has opened the camera, on a library
  that \<open>init_library\<close> has accepted: every function is exported then. PaletteManager and
  the methods of the window below are modelled for such a library; a call of theirs
  reaches the library and is answered.
\<close>

section \<open>PaletteManager\<close>

definition PALETTE_MAP :: "(string \<times> int) list" where
  "PALETTE_MAP =
     [(''Alarm Blue'', 1), (''Pinkblue'', 2), (''Bone'', 3), (''Grayblack'', 4),
      (''Alarm Green'', 5), (''Iron'', 6), (''Orange'', 7), (''Medical'', 8),
      (''Rain'', 9), (''Rainbow'', 10), (''Alarm Red'', 11)]"

definition DEFAULT_PALETTE_ID :: int where
  "DEFAULT_PALETTE_ID = 6"

definition get_palette_id :: "string \<Rightarrow> int" where
  "get_palette_id palette_name =
     (case map_of PALETTE_MAP palette_name of
        None \<Rightarrow> DEFAULT_PALETTE_ID
      | Some palette_id \<Rightarrow> palette_id)"

text \<open>\<open>PaletteManager.set_palette\<close>; \<open>ret\<close> is the status the library answers.\<close>

definition PaletteManager_set_palette ::
  "int \<Rightarrow> string \<Rightarrow> camera_manager \<Rightarrow> bool \<times> camera_manager" where
  "PaletteManager_set_palette ret palette_name cm =
     (if libir cm = None then (False, cm)
      else (ret = 0,
            cm\<lparr>sdk_calls := sdk_calls cm @ [Set_palette (get_palette_id palette_name)]\<rparr>))"

section \<open>ThermalCameraApp\<close>

text \<open>The structure \<open>EvoIRFrameMetadata\<close>; a C \<open>float\<close> is carried as its 32 bits.\<close>

record EvoIRFrameMetadata =
  counter :: "32 word"
  counterHW :: "32 word"
  timestamp :: "64 word"
  timestampMedia :: "64 word"
  flagState :: "32 word"
  tempChip :: "32 word"
  tempFlag :: "32 word"
  tempBox :: "32 word"

text \<open>The lines the application prints.\<close>

datatype log_line =
    Frame_error int
  | Update_error error
  | Palette_error string
  | Palette_set string
  | Initial_shutter_mode_error int
  | Shutter_mode_error int
  | Shutter_mode_set int
  | Video_saved

text \<open>
  The model name shown after initialisation: the first word of a format's name, or one
  of the two fixed texts for an empty name and for no matching format.
\<close>

datatype model_guess = Model string | Unknown | Unknown_model

text \<open>
  The attributes of the window that the modelled methods read or write. A label holds the
  values its text is formatted from (the temperature labels hold the raw samples: their
  text is computed from these in floating point, which is not modelled). The clock
  \<open>time.time()\<close> and \<open>self.fps\<close> are floats in the program and exact rationals here.
  \<open>video_writer\<close> holds the frames written so far. The two timers are represented by
  whether they are running.
\<close>

record app =
  camera_manager :: camera_manager
  formats_parser :: "format_info list"
  thermal_width :: int
  thermal_height :: int
  palette_width :: int
  palette_height :: int
  np_thermal :: "16 word list"
  np_img :: "8 word list"
  metadata :: EvoIRFrameMetadata
  frame_count :: int
  fps :: rat
  last_update_time :: rat
  recording :: bool
  video_writer :: "8 word list list option"
  timer_active :: bool
  record_timer_active :: bool
  palette_combo :: string
  auto_calib_checkbox :: bool
  resolution_combo :: "(string \<times> format_info) list"
  camera_info_label :: "(model_guess \<times> int \<times> int \<times> nat) option"
  image_label :: "8 word list option"
  fps_label :: rat
  temp_label :: "16 word option"
  avg_temp_label :: "16 word list option"
  metadata_labels :: "EvoIRFrameMetadata option"
  resolution_label :: "(int \<times> int \<times> int \<times> int) option"
  printed :: "log_line list"

definition SHUTTER_MODE_AUTO :: int where
  "SHUTTER_MODE_AUTO = 1"

definition SHUTTER_MODE_MANUAL :: int where
  "SHUTTER_MODE_MANUAL = 0"

text \<open>One call through \<open>self.camera_manager.libir\<close>.\<close>

definition sdk_call :: "sdk_call \<Rightarrow> app \<Rightarrow> app" where
  "sdk_call c s =
     s\<lparr>camera_manager :=
         (camera_manager s)\<lparr>sdk_calls := sdk_calls (camera_manager s) @ [c]\<rparr>\<rparr>"

definition detect_camera_model :: "app \<Rightarrow> error + model_guess" where
  "detect_camera_model s =
     (case get_formats_by_resolution (formats_parser s) (thermal_width s) (thermal_height s) of
        [] \<Rightarrow> Inr Unknown_model
      | fmt # _ \<Rightarrow>
          (case fmt_name fmt of
             None \<Rightarrow> Inl KeyError
           | Some name \<Rightarrow>
               (case py_split name of
                  [] \<Rightarrow> Inr Unknown
                | model_name # _ \<Rightarrow> Inr (Model model_name))))"

text \<open>
  The text of one entry of the format list: the model name, a colon, and the name after
  its first space (the whole name when it has no space).
\<close>

definition display_name :: "string \<Rightarrow> format_info \<Rightarrow> error + string" where
  "display_name model_name fmt =
     (case fmt_name fmt of
        None \<Rightarrow> Inl KeyError
      | Some name \<Rightarrow>
          Inr (model_name @ '': '' @
               (if CHR '' '' \<in> set name then tl (dropWhile (\<lambda>c. c \<noteq> CHR '' '') name)
                else name)))"

fun combo_items :: "string \<Rightarrow> format_info list \<Rightarrow> error + (string \<times> format_info) list" where
  "combo_items model_name [] = Inr []"
| "combo_items model_name (fmt # formats) =
     (case display_name model_name fmt of
        Inl e \<Rightarrow> Inl e
      | Inr label \<Rightarrow>
          (case combo_items model_name formats of
             Inl e \<Rightarrow> Inl e
           | Inr items \<Rightarrow> Inr ((label, fmt) # items)))"

fun all_combo_items ::
  "(string \<times> format_info list) list \<Rightarrow> error + (string \<times> format_info) list" where
  "all_combo_items [] = Inr []"
| "all_combo_items ((model_name, formats) # groups) =
     (case combo_items model_name formats of
        Inl e \<Rightarrow> Inl e
      | Inr items \<Rightarrow>
          (case all_combo_items groups of
             Inl e \<Rightarrow> Inl e
           | Inr others \<Rightarrow> Inr (items @ others)))"

definition update_available_formats :: "app \<Rightarrow> error + app" where
  "update_available_formats s =
     (case get_formats_grouped_by_model (formats_parser s) of
        Inl e \<Rightarrow> Inl e
      | Inr grouped_formats \<Rightarrow>
          (case all_combo_items grouped_formats of
             Inl e \<Rightarrow> Inl e
           | Inr items \<Rightarrow> Inr (s\<lparr>resolution_combo := items\<rparr>)))"

text \<open>
  \<open>np.zeros([n], dtype)\<close>: a negative size raises ValueError. A size beyond the
  memory of the machine is outside the model.
\<close>

definition np_zeros :: "int \<Rightarrow> error + 'a::zero list" where
  "np_zeros n = (if n < 0 then Inl ValueError else Inr (replicate (nat n) 0))"

text \<open>\<open>ThermalCameraApp.set_palette\<close>.\<close>

definition set_palette :: "int \<Rightarrow> string \<Rightarrow> app \<Rightarrow> app" where
  "set_palette ret palette_name s =
     (case PaletteManager_set_palette ret palette_name (camera_manager s) of
        (success, cm) \<Rightarrow>
          s\<lparr>camera_manager := cm,
            printed := printed s @
              [if \<not> success then Palette_error palette_name else Palette_set palette_name]\<rparr>)"

text \<open>
  \<open>ThermalCameraApp.init_camera\<close>. An exception raised on the way is not caught by the
  method: the result is \<open>Inl\<close>.
\<close>

definition init_camera :: "init_response \<Rightarrow> string \<Rightarrow> app \<Rightarrow> error + (bool \<times> app)" where
  "init_camera r xml_path s =
     (case CameraManager_init_camera r xml_path (camera_manager s) of
        (None, cm) \<Rightarrow> Inr (False, s\<lparr>camera_manager := cm\<rparr>)
      | (Some camera_info, cm) \<Rightarrow>
          (let s1 = s\<lparr>camera_manager := cm,
                      thermal_width := info_thermal_width camera_info,
                      thermal_height := info_thermal_height camera_info,
                      palette_width := info_palette_width camera_info,
                      palette_height := info_palette_height camera_info\<rparr>
           in case detect_camera_model s1 of
                Inl e \<Rightarrow> Inl e
              | Inr model_name \<Rightarrow>
                  (let s2 = s1\<lparr>camera_info_label :=
                               Some (model_name, thermal_width s1, thermal_height s1,
                                     info_serial camera_info)\<rparr>
                   in case update_available_formats s2 of
                        Inl e \<Rightarrow> Inl e
                      | Inr s3 \<Rightarrow>
                          (case np_zeros (thermal_width s3 * thermal_height s3) of
                             Inl e \<Rightarrow> Inl e
                           | Inr thermal \<Rightarrow>
                               (case np_zeros (palette_width s3 * palette_height s3 * 3) of
                                  Inl e \<Rightarrow> Inl e
                                | Inr img \<Rightarrow>
                                    (let s4 = s3\<lparr>np_thermal := thermal, np_img := img,
                                                 metadata :=
                                                   \<lparr>counter = 0, counterHW = 0, timestamp = 0,
                                                    timestampMedia = 0, flagState = 0,
                                                    tempChip = 0, tempFlag = 0, tempBox = 0\<rparr>\<rparr>;
                                         s5 = set_palette (set_palette_ret r) (palette_combo s4) s4;
                                         s6 = sdk_call (Set_shutter_mode 1) s5;
                                         ret = set_shutter_mode_ret r;
                                         s7 = (if ret \<noteq> 0
                                               then s6\<lparr>printed := printed s6 @
                                                          [Initial_shutter_mode_error ret]\<rparr>
                                               else s6)
                                     in Inr (True, s7)))))))"


text \<open>
  \<open>toggle_auto_calib\<close>; \<open>state\<close> is the check box's state (2 is checked) and \<open>ret\<close> the
  status the library answers.
\<close>

definition toggle_auto_calib :: "int \<Rightarrow> int \<Rightarrow> app \<Rightarrow> app" where
  "toggle_auto_calib ret state s =
     (if libir (camera_manager s) = None then s
      else
        (let shutter_mode = (if state = 2 then SHUTTER_MODE_AUTO else SHUTTER_MODE_MANUAL);
             s1 = sdk_call (Set_shutter_mode shutter_mode) s
         in s1\<lparr>printed := printed s1 @
                  [if ret \<noteq> 0 then Shutter_mode_error ret else Shutter_mode_set shutter_mode]\<rparr>))"


subsection \<open>update_frame\<close>

text \<open>What the library answers to one request for a frame.\<close>

record acquisition =
  acq_ret :: int
  acq_thermal :: "16 word list"
  acq_palette :: "8 word list"
  acq_metadata :: EvoIRFrameMetadata

text \<open>
  The library writes into the buffers it is handed; a buffer keeps its length, and what
  the library did not write stays.
\<close>

definition overwrite :: "'a list \<Rightarrow> 'a list \<Rightarrow> 'a list" where
  "overwrite buf new = take (length buf) new @ drop (length new) buf"

definition acquire :: "acquisition \<Rightarrow> app \<Rightarrow> app" where
  "acquire a s =
     (sdk_call Get_thermal_palette_image_metadata s)
       \<lparr>np_thermal := overwrite (np_thermal s) (acq_thermal a),
        np_img := overwrite (np_img s) (acq_palette a),
        metadata := acq_metadata a\<rparr>"

text \<open>The channel swap \<open>[:, :, ::-1]\<close> on the flat pixel data, three bytes a pixel.\<close>

fun swap_channels :: "8 word list \<Rightarrow> 8 word list" where
  "swap_channels (b # g # r # rest) = r # g # b # swap_channels rest"
| "swap_channels rest = rest"

text \<open>
  \<open>self.np_img.reshape(palette_height, palette_width, 3)\<close> and the swap. On the buffer
  that \<open>init_camera\<close> allocates, of length \<open>palette_width * palette_height * 3\<close>, numpy
  raises ValueError for every negative dimension (two unknown dimensions, or one
  unknown dimension beside a zero).
\<close>

definition reshape_rgb :: "app \<Rightarrow> error + 8 word list" where
  "reshape_rgb s =
     (if 0 \<le> palette_height s \<and> 0 \<le> palette_width s
         \<and> palette_height s * palette_width s * 3 = int (length (np_img s))
      then Inr (swap_channels (np_img s))
      else Inl ValueError)"

text \<open>The picture is shown and, while a recording runs, written to the video.\<close>

definition show_frame :: "8 word list \<Rightarrow> app \<Rightarrow> app" where
  "show_frame img_rgb s =
     (let s1 = s\<lparr>image_label := Some img_rgb\<rparr>
      in case video_writer s1 of
           None \<Rightarrow> s1
         | Some frames \<Rightarrow>
             if recording s1 then s1\<lparr>video_writer := Some (frames @ [swap_channels img_rgb])\<rparr>
             else s1)"

text \<open>Lines 1060 to 1069: the frame rate.\<close>

definition update_fps :: "rat \<Rightarrow> app \<Rightarrow> app" where
  "update_fps current_time s =
     (let s1 = s\<lparr>frame_count := frame_count s + 1\<rparr>;
          elapsed = current_time - last_update_time s1
      in if elapsed > 1 / 2
         then s1\<lparr>fps := of_int (frame_count s1) / elapsed,
                 fps_label := of_int (frame_count s1) / elapsed,
                 last_update_time := current_time,
                 frame_count := 0\<rparr>
         else s1)"

definition center_index :: "int \<Rightarrow> int \<Rightarrow> int" where
  "center_index height width = (height div 2) * width + (width div 2)"

text \<open>Indexing a one-dimensional array: a negative index counts from the end.\<close>

definition np_getitem :: "'a list \<Rightarrow> int \<Rightarrow> error + 'a" where
  "np_getitem xs i =
     (if 0 \<le> i \<and> i < int (length xs) then Inr (xs ! nat i)
      else if i < 0 \<and> - int (length xs) \<le> i then Inr (xs ! nat (int (length xs) + i))
      else Inl IndexError)"

text \<open>
  \<open>update_frame\<close>, one tick of the timer. The method catches every exception of its
  body and prints it; what was assigned before the raise stays assigned.
\<close>

definition update_frame :: "acquisition \<Rightarrow> rat \<Rightarrow> app \<Rightarrow> app" where
  "update_frame a current_time s =
     (let s1 = acquire a s
      in if acq_ret a \<noteq> 0 then s1\<lparr>printed := printed s1 @ [Frame_error (acq_ret a)]\<rparr>
         else
           (case reshape_rgb s1 of
              Inl e \<Rightarrow> s1\<lparr>printed := printed s1 @ [Update_error e]\<rparr>
            | Inr img_rgb \<Rightarrow>
                (let s2 = show_frame img_rgb s1;
                     s3 = update_fps current_time s2
                 in case np_getitem (np_thermal s3)
                           (center_index (thermal_height s3) (thermal_width s3)) of
                      Inl e \<Rightarrow> s3\<lparr>printed := printed s3 @ [Update_error e]\<rparr>
                    | Inr raw_temp \<Rightarrow>
                        s3\<lparr>temp_label := Some raw_temp,
                           avg_temp_label := Some (np_thermal s3),
                           metadata_labels := Some (metadata s3),
                           resolution_label :=
                             Some (thermal_width s3, thermal_height s3,
                                   palette_width s3, palette_height s3)\<rparr>)))"


section \<open>Vocabulary of the properties\<close>

text \<open>
  The GUIDs of the blocks that carry the deprecation marker, and the GUIDs referenced by
  the first \<open>replaces {GUID}\<close> of the blocks that have a GUID and carry no marker.
\<close>

definition marked_guids :: "string list \<Rightarrow> string set" where
  "marked_guids blocks =
     set (concat (map (\<lambda>b. case guid_match b of
                              None \<Rightarrow> []
                            | Some g \<Rightarrow> if is_deprecated b then [g] else []) blocks))"

definition replaced_guids :: "string list \<Rightarrow> string set" where
  "replaced_guids blocks =
     set (concat (map (\<lambda>b. case guid_match b of
                              None \<Rightarrow> []
                            | Some g \<Rightarrow>
                                if is_deprecated b then []
                                else (case replace_match b of None \<Rightarrow> [] | Some r \<Rightarrow> [r]))
                   blocks))"

text \<open>The GUIDs of the blocks that have a GUID and carry no marker, one entry a block.\<close>

definition live_guids :: "string list \<Rightarrow> string list" where
  "live_guids blocks =
     concat (map (\<lambda>b. case guid_match b of
                         None \<Rightarrow> []
                       | Some g \<Rightarrow> if is_deprecated b then [] else [g]) blocks)"

text \<open>The model of a format: the first word of its name, when it has a name and a word.\<close>

definition model_of :: "format_info \<Rightarrow> string option" where
  "model_of fmt =
     (case fmt_name fmt of
        None \<Rightarrow> None
      | Some name \<Rightarrow> (case py_split name of [] \<Rightarrow> None | model_name # _ \<Rightarrow> Some model_name))"

text \<open>Notions of the proofs.\<close>

definition keyed :: "(string \<times> format_info) list \<Rightarrow> bool" where
  "keyed al = (distinct (map fst al) \<and> (\<forall>(g, f) \<in> set al. fmt_guid f = g))"

definition live_entries :: "string list \<Rightarrow> (string \<times> format_info) set" where
  "live_entries blocks =
     {(g, f). \<exists>b \<in> set blocks. guid_match b = Some g \<and> \<not> is_deprecated b
                \<and> extract_fields g b = Inr f}"

definition block_raises :: "string \<Rightarrow> bool" where
  "block_raises b =
     (case guid_match b of
        None \<Rightarrow> False
      | Some g \<Rightarrow>
          \<not> is_deprecated b
          \<and> (case extract_fields g b of Inl e \<Rightarrow> True | Inr f \<Rightarrow> False))"

definition grp :: "(string \<times> format_info list) list \<Rightarrow> string \<Rightarrow> format_info list" where
  "grp models k = (case map_of models k of None \<Rightarrow> [] | Some v \<Rightarrow> v)"

section \<open>Example catalogs and states\<close>

definition format_block :: "string \<Rightarrow> string" where
  "format_block body = ''[Format]'' @ body @ ''[Format end]''"

definition quoted :: "string \<Rightarrow> string" where
  "quoted s = [CHR 0x22] @ s @ [CHR 0x22]"

text \<open>
  A catalog of three formats: one replaced by a newer one, one marked deprecated, and
  the newer one. The second text lists the same blocks in another order.
\<close>

definition pi_replaced :: string where
  "pi_replaced = '' Guid = {A0} Out = 160 120 100 ''"

definition pi_marked :: string where
  "pi_marked = '' Guid = {A1} Out = 640 480 32 ; This format is deprecated ''"

definition pi_new :: string where
  "pi_new = '' Guid = {B2} replaces {A0} Out = 640 480 32.0 ''"

definition pi_catalog :: string where
  "pi_catalog = format_block pi_replaced @ format_block pi_marked @ format_block pi_new"

definition pi_catalog_reordered :: string where
  "pi_catalog_reordered = format_block pi_new @ format_block pi_replaced @ format_block pi_marked"








text \<open>A deprecated block that names the format it once replaced.\<close>

definition chain_old :: string where
  "chain_old = '' Guid = {A} ; this format is deprecated, replaces {B} ''"

definition chain_older :: string where
  "chain_older = '' Guid = {B} ''"

definition chain_catalog :: string where
  "chain_catalog = format_block chain_old @ format_block chain_older"

text \<open>Two blocks with one GUID and different resolutions, in both orders.\<close>

definition twin_160 :: string where
  "twin_160 = '' Guid = {G} Out = 160 120 100 ''"

definition twin_382 :: string where
  "twin_382 = '' Guid = {G} Out = 382 288 27 ''"

definition twin_catalog :: string where
  "twin_catalog = format_block twin_160 @ format_block twin_382"

definition twin_catalog_reordered :: string where
  "twin_catalog_reordered = format_block twin_382 @ format_block twin_160"

text \<open>Named formats of two models; a name of one space; a block with no name.\<close>

definition named_blocks :: "string list" where
  "named_blocks =
     ['' Guid = {P1} Name = '' @ quoted ''PI640 32Hz'' @ '' '',
      '' Guid = {X1} Name = '' @ quoted ''Xi400 80Hz'' @ '' '',
      '' Guid = {P2} Name = '' @ quoted ''PI640 125Hz'' @ '' '']"

definition blank_name_block :: string where
  "blank_name_block = '' Guid = {Z} Name = '' @ quoted '' '' @ '' ''"

definition no_name_block :: string where
  "no_name_block = '' Guid = {Z} Out = 160 120 100 ''"




definition fresh_app :: app where
  "fresh_app =
     \<lparr>camera_manager =
        \<lparr>libir = None, cm_formats = [], available_formats = [], sdk_calls = []\<rparr>,
      formats_parser = [],
      thermal_width = 0, thermal_height = 0, palette_width = 0, palette_height = 0,
      np_thermal = [], np_img = [],
      metadata = \<lparr>counter = 0, counterHW = 0, timestamp = 0, timestampMedia = 0,
                  flagState = 0, tempChip = 0, tempFlag = 0, tempBox = 0\<rparr>,
      frame_count = 0, fps = 0, last_update_time = 0,
      recording = False, video_writer = None,
      timer_active = False, record_timer_active = False,
      palette_combo = ''Iron'', auto_calib_checkbox = True,
      resolution_combo = [], camera_info_label = None, image_label = None,
      fps_label = 0, temp_label = None, avg_temp_label = None,
      metadata_labels = None, resolution_label = None, printed = []\<rparr>"

text \<open>
  A library that reports a thermal frame of 4 by 2 samples and a palette frame of 2 by 1
  pixels and refuses the shutter mode with status 5.
\<close>

definition small_camera :: init_response where
  "small_camera =
     \<lparr>dll = Dll_loaded (set prototypes), usb_init_ret = 0, thermal_size = (4, 2),
      palette_size = (2, 1),
      serial_ret = 0, serial_value = 17, set_palette_ret = 0, set_shutter_mode_ret = 5\<rparr>"





text \<open>The window once that camera is open and the frame timer runs.\<close>

definition open_app :: app where
  "open_app =
     fresh_app
       \<lparr>camera_manager :=
          \<lparr>libir = Some (set prototypes), cm_formats = [], available_formats = [],
           sdk_calls = []\<rparr>,
        thermal_width := 4, thermal_height := 2, palette_width := 2, palette_height := 1,
        np_thermal := replicate 8 0, np_img := replicate 6 0,
        frame_count := 3, timer_active := True\<rparr>"

definition good_frame :: acquisition where
  "good_frame =
     \<lparr>acq_ret = 0, acq_thermal = [1000, 1001, 1002, 1003, 1004, 1005, 1006, 1007],
      acq_palette = [1, 2, 3, 4, 5, 6],
      acq_metadata = \<lparr>counter = 9, counterHW = 9, timestamp = 0, timestampMedia = 0,
                      flagState = 0, tempChip = 0, tempFlag = 0, tempBox = 0\<rparr>\<rparr>"

definition bad_frame :: acquisition where
  "bad_frame = good_frame\<lparr>acq_ret := -1\<rparr>"

section \<open>Lemmas on the parse loop\<close>

lemma marked_guids_iff:
  "g \<in> marked_guids blocks \<longleftrightarrow> (\<exists>b \<in> set blocks. guid_match b = Some g \<and> is_deprecated b)"
  by (induction blocks) (auto simp: marked_guids_def split: option.splits)

lemma replaced_guids_iff:
  "r \<in> replaced_guids blocks \<longleftrightarrow>
     (\<exists>b \<in> set blocks. guid_match b \<noteq> None \<and> \<not> is_deprecated b \<and> replace_match b = Some r)"
  by (induction blocks) (auto simp: replaced_guids_def split: option.splits if_splits)

lemma marked_guids_Cons: "marked_guids (b # bs) = marked_guids [b] \<union> marked_guids bs"
  by (simp add: marked_guids_def)

lemma replaced_guids_Cons: "replaced_guids (b # bs) = replaced_guids [b] \<union> replaced_guids bs"
  by (simp add: replaced_guids_def)

lemma extract_fields_guid: "extract_fields g b = Inr f \<Longrightarrow> fmt_guid f = g"
  by (auto simp: extract_fields_def split: sum.splits)

lemma set_update_subset: "set (AList.update k v al) \<subseteq> insert (k, v) (set al)"
  by (induction al) auto

lemma set_update_fresh:
  "k \<notin> fst ` set al \<Longrightarrow> set (AList.update k v al) = insert (k, v) (set al)"
  by (induction al) auto

lemma keyed_Nil: "keyed []"
  by (simp add: keyed_def)

lemma keyed_update: "keyed al \<Longrightarrow> fmt_guid f = g \<Longrightarrow> keyed (AList.update g f al)"
  using set_update_subset [of g f al]
  by (auto simp: keyed_def distinct_update)

lemma process_block_keyed:
  "process_block b (al, dep) = Inr (al', dep') \<Longrightarrow> keyed al \<Longrightarrow> keyed al'"
  by (auto simp: process_block_def Let_def keyed_update extract_fields_guid
      split: option.splits if_splits sum.splits)

lemma process_block_dep:
  "process_block b (al, dep) = Inr (al', dep') \<Longrightarrow>
     dep' = dep \<union> marked_guids [b] \<union> replaced_guids [b]"
  by (auto simp: process_block_def Let_def marked_guids_iff replaced_guids_iff
      split: option.splits if_splits sum.splits)

lemma parse_loop_step:
  assumes "parse_loop (b # bs) (al, dep) = Inr (al', dep')"
  obtains al1 dep1 where "process_block b (al, dep) = Inr (al1, dep1)"
    and "parse_loop bs (al1, dep1) = Inr (al', dep')"
  using assms by (auto split: sum.splits)

lemma parse_loop_keyed:
  "parse_loop bs (al, dep) = Inr (al', dep') \<Longrightarrow> keyed al \<Longrightarrow> keyed al'"
proof (induction bs arbitrary: al dep)
  case Nil
  then show ?case by simp
next
  case (Cons b bs)
  from Cons.prems(1) obtain al1 dep1 where
    s: "process_block b (al, dep) = Inr (al1, dep1)" and
    r: "parse_loop bs (al1, dep1) = Inr (al', dep')"
    by (rule parse_loop_step)
  from process_block_keyed [OF s Cons.prems(2)] Cons.IH [OF r] show ?case by blast
qed

lemma parse_loop_dep:
  "parse_loop bs (al, dep) = Inr (al', dep') \<Longrightarrow>
     dep' = dep \<union> marked_guids bs \<union> replaced_guids bs"
proof (induction bs arbitrary: al dep)
  case Nil
  then show ?case by (auto simp: marked_guids_iff replaced_guids_iff)
next
  case (Cons b bs)
  from Cons.prems(1) obtain al1 dep1 where
    s: "process_block b (al, dep) = Inr (al1, dep1)" and
    r: "parse_loop bs (al1, dep1) = Inr (al', dep')"
    by (rule parse_loop_step)
  from process_block_dep [OF s] Cons.IH [OF r] show ?case
    by (subst marked_guids_Cons, subst replaced_guids_Cons) auto
qed

lemma retained_guids:
  "keyed al \<Longrightarrow> map fmt_guid (retained (al, dep)) = filter (\<lambda>g. g \<notin> dep) (map fst al)"
  by (induction al) (auto simp: retained_def keyed_def)

lemma retained_distinct: "keyed al \<Longrightarrow> distinct (map fmt_guid (retained (al, dep)))"
  by (simp add: retained_guids keyed_def)

lemma retained_not_deprecated:
  assumes "keyed al" and "f \<in> set (retained (al, dep))"
  shows "fmt_guid f \<notin> dep"
proof -
  from assms(2) have "fmt_guid f \<in> set (map fmt_guid (retained (al, dep)))" by simp
  with assms(1) show ?thesis by (simp add: retained_guids)
qed

lemma set_retained: "set (retained (al, dep)) = snd ` {p \<in> set al. fst p \<notin> dep}"
  by (auto simp: retained_def image_iff)

lemma formats_of_blocks_cases:
  "formats_of_blocks bs = [] \<or>
   (\<exists>al dep. parse_loop bs ([], {}) = Inr (al, dep) \<and> keyed al
       \<and> dep = marked_guids bs \<union> replaced_guids bs
       \<and> formats_of_blocks bs = retained (al, dep))"
proof (cases "parse_loop bs ([], {})")
  case (Inl e)
  then show ?thesis by (simp add: formats_of_blocks_def parse_blocks_def)
next
  case (Inr st)
  obtain al dep where st: "st = (al, dep)" by (cases st)
  from Inr st parse_loop_keyed [of bs "[]" "{}" al dep] keyed_Nil
    parse_loop_dep [of bs "[]" "{}" al dep]
  show ?thesis by (auto simp: formats_of_blocks_def parse_blocks_def)
qed

lemma FormatsDefParser_blocks:
  "FormatsDefParser (Some content) = formats_of_blocks (find_format_blocks content)"
  by (simp add: FormatsDefParser_def parse_formats_file_def formats_of_blocks_def)

lemma formats_of_blocks_distinct: "distinct (map fmt_guid (formats_of_blocks bs))"
  using formats_of_blocks_cases [of bs] by (auto simp: retained_distinct)

lemma formats_of_blocks_not_deprecated:
  "f \<in> set (formats_of_blocks bs) \<Longrightarrow> fmt_guid f \<notin> marked_guids bs \<union> replaced_guids bs"
  using formats_of_blocks_cases [of bs] retained_not_deprecated [of _ f]
  by (metis empty_iff empty_set)

lemma process_block_raises: "(\<exists>e. process_block b st = Inl e) \<longleftrightarrow> block_raises b"
  by (cases st)
    (auto simp: process_block_def block_raises_def Let_def split: option.splits sum.splits)

lemma parse_loop_raises:
  "(\<exists>e. parse_loop bs st = Inl e) \<longleftrightarrow> (\<exists>b \<in> set bs. block_raises b)"
proof (induction bs arbitrary: st)
  case Nil
  then show ?case by simp
next
  case (Cons b bs)
  show ?case
  proof (cases "process_block b st")
    case (Inl e)
    with process_block_raises [of b st] show ?thesis by auto
  next
    case (Inr st')
    with process_block_raises [of b st] have "\<not> block_raises b" by auto
    with Inr Cons.IH [of st'] show ?thesis by auto
  qed
qed

lemma live_guids_Cons: "live_guids (b # bs) = live_guids [b] @ live_guids bs"
  by (simp add: live_guids_def)

lemma live_entries_Cons: "live_entries (b # bs) = live_entries [b] \<union> live_entries bs"
  by (auto simp: live_entries_def)

lemma process_block_entries:
  "process_block b (al, dep) = Inr (al', dep') \<Longrightarrow> set (live_guids [b]) \<inter> fst ` set al = {}
     \<Longrightarrow> set al' = set al \<union> live_entries [b]
         \<and> fst ` set al' = fst ` set al \<union> set (live_guids [b])"
  by (auto simp: process_block_def Let_def live_guids_def live_entries_def set_update_fresh
        AList.dom_update
      split: option.splits if_splits sum.splits)

lemma parse_loop_entries:
  "parse_loop bs (al, dep) = Inr (al', dep') \<Longrightarrow> distinct (live_guids bs)
     \<Longrightarrow> set (live_guids bs) \<inter> fst ` set al = {}
     \<Longrightarrow> set al' = set al \<union> live_entries bs"
proof (induction bs arbitrary: al dep)
  case Nil
  then show ?case by (simp add: live_entries_def)
next
  case (Cons b bs)
  from Cons.prems(1) obtain al1 dep1 where
    s: "process_block b (al, dep) = Inr (al1, dep1)" and
    r: "parse_loop bs (al1, dep1) = Inr (al', dep')"
    by (rule parse_loop_step)
  from Cons.prems(2) have d: "distinct (live_guids bs)"
    and x: "set (live_guids [b]) \<inter> set (live_guids bs) = {}"
    by (simp_all add: live_guids_Cons [of b bs])
  from Cons.prems(3) have f: "set (live_guids [b]) \<inter> fst ` set al = {}"
    and g: "set (live_guids bs) \<inter> fst ` set al = {}"
    by (auto simp: live_guids_Cons [of b bs])
  from process_block_entries [OF s f]
  have a1: "set al1 = set al \<union> live_entries [b]"
    and k1: "fst ` set al1 = fst ` set al \<union> set (live_guids [b])" by blast+
  from k1 x g have "set (live_guids bs) \<inter> fst ` set al1 = {}" by auto
  from Cons.IH [OF r d this] a1 show ?case
    by (subst live_entries_Cons) auto
qed

lemma mset_live_guids:
  assumes "mset bs' = mset bs"
  shows "mset (live_guids bs') = mset (live_guids bs)"
proof -
  let ?h = "\<lambda>b. case guid_match b of
                   None \<Rightarrow> []
                 | Some g \<Rightarrow> if is_deprecated b then [] else [g]"
  have "mset (live_guids xs) = sum_mset (image_mset (\<lambda>b. mset (?h b)) (mset xs))" for xs
    by (induction xs) (simp_all add: live_guids_def)
  with assms show ?thesis by simp
qed

lemma formats_of_blocks_permuted:
  assumes perm: "mset blocks' = mset blocks"
    and dist: "distinct (live_guids blocks)"
  shows "set (formats_of_blocks blocks') = set (formats_of_blocks blocks)"
proof -
  from perm have s: "set blocks' = set blocks" by (rule mset_eq_setD)
  from mset_live_guids [OF perm] dist have dist': "distinct (live_guids blocks')"
    using mset_eq_imp_distinct_iff by blast
  show ?thesis
  proof (cases "\<exists>b \<in> set blocks. block_raises b")
    case True
    with s parse_loop_raises [of blocks "([], {})"] parse_loop_raises [of blocks' "([], {})"]
    show ?thesis by (auto simp: formats_of_blocks_def parse_blocks_def)
  next
    case False
    with parse_loop_raises [of blocks "([], {})"]
    obtain al dep where p: "parse_loop blocks ([], {}) = Inr (al, dep)"
      by (cases "parse_loop blocks ([], {})") auto
    from False s parse_loop_raises [of blocks' "([], {})"]
    obtain al' dep' where p': "parse_loop blocks' ([], {}) = Inr (al', dep')"
      by (cases "parse_loop blocks' ([], {})") auto
    from parse_loop_entries [OF p dist] have a: "set al = live_entries blocks" by simp
    from parse_loop_entries [OF p' dist'] have a': "set al' = live_entries blocks'" by simp
    from s have e: "live_entries blocks' = live_entries blocks"
      by (simp add: live_entries_def)
    from s have "marked_guids blocks' = marked_guids blocks"
      "replaced_guids blocks' = replaced_guids blocks"
      by (auto simp: marked_guids_iff replaced_guids_iff)
    with parse_loop_dep [OF p] parse_loop_dep [OF p'] have d: "dep' = dep" by simp
    from p p' a a' e d show ?thesis
      by (simp add: formats_of_blocks_def parse_blocks_def set_retained)
  qed
qed


section \<open>Lemmas on the grouping\<close>

lemma append_to_model_keys:
  "map fst (append_to_model k f models) =
     (if k \<in> fst ` set models then map fst models else map fst models @ [k])"
  by (auto simp: append_to_model_def case_prod_beta cong: map_cong)

lemma append_to_model_dom:
  "fst ` set (append_to_model k f models) = insert k (fst ` set models)"
proof -
  have "fst ` set (append_to_model k f models) = set (map fst (append_to_model k f models))"
    by simp
  also have "\<dots> = insert k (fst ` set models)"
    by (subst append_to_model_keys) auto
  finally show ?thesis .
qed

lemma map_of_bump:
  "map_of (map (\<lambda>(k', v). if k' = k then (k', v @ [f]) else (k', v)) al) x =
     (if x = k then map_option (\<lambda>v. v @ [f]) (map_of al k) else map_of al x)"
  by (induction al) auto

lemma append_to_model_grp:
  "grp (append_to_model k f models) x = (if x = k then grp models k @ [f] else grp models x)"
proof (cases "k \<in> fst ` set models")
  case True
  then obtain v where "map_of models k = Some v"
    by (metis domD dom_map_of_conv_image_fst)
  with True show ?thesis by (simp add: grp_def append_to_model_def map_of_bump)
next
  case False
  then have "map_of models k = None" by (simp add: map_of_eq_None_iff)
  with False show ?thesis
    by (auto simp: grp_def append_to_model_def map_of_bump map_add_def split: option.splits)
qed

lemma group_loop_sound:
  "group_loop fs models = Inr gs \<Longrightarrow> distinct (map fst models) \<Longrightarrow>
     distinct (map fst gs)
     \<and> fst ` set gs = fst ` set models \<union> {k. \<exists>f \<in> set fs. model_of f = Some k}
     \<and> (\<forall>k. grp gs k = grp models k @ filter (\<lambda>f. model_of f = Some k) fs)"
proof (induction fs arbitrary: models)
  case Nil
  then show ?case by simp
next
  case (Cons f fs)
  from Cons.prems(1) obtain name where n: "fmt_name f = Some name"
    by (auto split: option.splits)
  show ?case
  proof (cases "py_split name")
    case Nil
    with n have m: "model_of f = None" by (simp add: model_of_def)
    from Cons.prems(1) n Nil have "group_loop fs models = Inr gs" by simp
    from Cons.IH [OF this Cons.prems(2)] m show ?thesis by auto
  next
    case (Cons k rest)
    with n have m: "model_of f = Some k" by (simp add: model_of_def)
    from Cons.prems(1) n Cons have g: "group_loop fs (append_to_model k f models) = Inr gs"
      by simp
    from Cons.prems(2) have d: "distinct (map fst (append_to_model k f models))"
      by (simp add: append_to_model_keys)
    from Cons.IH [OF g d] append_to_model_dom [of k f models] m show ?thesis
      by (auto simp: append_to_model_grp)
  qed
qed

lemma group_loop_total:
  "\<forall>f \<in> set fs. fmt_name f \<noteq> None \<Longrightarrow> \<exists>gs. group_loop fs models = Inr gs"
  by (induction fs arbitrary: models) (auto split: option.splits list.splits)

section \<open>The format catalog\<close>

text \<open>
  C1, as amended. For every text of a catalog file: no two retained formats have the
  same GUID; no retained format has a GUID of the deprecated set, which is, whenever the
  parse ends without an exception, exactly the GUIDs of the blocks carrying the marker
  together with the GUIDs named by the first \<open>replaces\<close> reference of the blocks that
  have a GUID and carry no marker; in particular a format that such a block replaces is
  not retained, and a block carrying the marker is never retained.
\<close>

theorem retained_guids_unique_and_not_deprecated:
  "distinct (map fmt_guid (FormatsDefParser (Some content)))
   \<and> (\<forall>f \<in> set (FormatsDefParser (Some content)).
         fmt_guid f \<notin> marked_guids (find_format_blocks content)
                        \<union> replaced_guids (find_format_blocks content))
   \<and> (\<forall>al dep. parse_loop (find_format_blocks content) ([], {}) = Inr (al, dep)
         \<longrightarrow> dep = marked_guids (find_format_blocks content)
                   \<union> replaced_guids (find_format_blocks content))
   \<and> (\<forall>a \<in> set (find_format_blocks content). \<forall>r.
         guid_match a \<noteq> None \<and> \<not> is_deprecated a \<and> replace_match a = Some r
         \<longrightarrow> r \<notin> fmt_guid ` set (FormatsDefParser (Some content)))
   \<and> (\<forall>d \<in> set (find_format_blocks content). \<forall>g.
         is_deprecated d \<and> guid_match d = Some g
         \<longrightarrow> g \<notin> fmt_guid ` set (FormatsDefParser (Some content)))"
proof -
  let ?bs = "find_format_blocks content"
  have f: "FormatsDefParser (Some content) = formats_of_blocks ?bs"
    by (rule FormatsDefParser_blocks)
  have nd: "fmt_guid x \<notin> marked_guids ?bs \<union> replaced_guids ?bs"
    if "x \<in> set (formats_of_blocks ?bs)" for x
    using that by (rule formats_of_blocks_not_deprecated)
  have a: "distinct (map fmt_guid (formats_of_blocks ?bs))"
    by (rule formats_of_blocks_distinct)
  have c: "dep = marked_guids ?bs \<union> replaced_guids ?bs"
    if "parse_loop ?bs ([], {}) = Inr (al, dep)" for al dep
    using parse_loop_dep [OF that] by simp
  have d: "r \<notin> fmt_guid ` set (formats_of_blocks ?bs)"
    if "a \<in> set ?bs" "guid_match a \<noteq> None" "\<not> is_deprecated a" "replace_match a = Some r"
    for a r
  proof -
    from that have "r \<in> replaced_guids ?bs" by (auto simp: replaced_guids_iff)
    with nd show ?thesis by auto
  qed
  have e: "g \<notin> fmt_guid ` set (formats_of_blocks ?bs)"
    if "d \<in> set ?bs" "is_deprecated d" "guid_match d = Some g" for d g
  proof -
    from that have "g \<in> marked_guids ?bs" by (auto simp: marked_guids_iff)
    with nd show ?thesis by auto
  qed
  from a nd c d e show ?thesis unfolding f by blast
qed

theorem retained_guids_witness:
  "find_format_blocks pi_catalog = [pi_replaced, pi_marked, pi_new]
   \<and> guid_match pi_new = Some ''B2'' \<and> \<not> is_deprecated pi_new
   \<and> replace_match pi_new = Some ''A0''
   \<and> guid_match pi_marked = Some ''A1'' \<and> is_deprecated pi_marked
   \<and> map fmt_guid (FormatsDefParser (Some pi_catalog)) = [''B2'']
   \<and> ''B2'' \<notin> marked_guids (find_format_blocks pi_catalog)
                 \<union> replaced_guids (find_format_blocks pi_catalog)
   \<and> ''A0'' \<notin> fmt_guid ` set (FormatsDefParser (Some pi_catalog))
   \<and> ''A1'' \<notin> fmt_guid ` set (FormatsDefParser (Some pi_catalog))"
proof -
  have b: "find_format_blocks pi_catalog = [pi_replaced, pi_marked, pi_new]" by code_simp
  have n1: "guid_match pi_new = Some ''B2''" by code_simp
  have n2: "\<not> is_deprecated pi_new" by code_simp
  have n3: "replace_match pi_new = Some ''A0''" by code_simp
  have m1: "guid_match pi_marked = Some ''A1''" by code_simp
  have m2: "is_deprecated pi_marked" by code_simp
  have g: "map fmt_guid (FormatsDefParser (Some pi_catalog)) = [''B2'']" by code_simp
  note t = retained_guids_unique_and_not_deprecated [of pi_catalog]
  from t have nd: "\<forall>f \<in> set (FormatsDefParser (Some pi_catalog)).
         fmt_guid f \<notin> marked_guids (find_format_blocks pi_catalog)
                        \<union> replaced_guids (find_format_blocks pi_catalog)"
    by (rule conjunct1 [OF conjunct2])
  from g obtain f where fin: "f \<in> set (FormatsDefParser (Some pi_catalog))"
    and fg: "fmt_guid f = ''B2''"
    by (auto simp: map_eq_Cons_conv)
  from bspec [OF nd fin] have 1: "''B2'' \<notin> marked_guids (find_format_blocks pi_catalog)
                 \<union> replaced_guids (find_format_blocks pi_catalog)"
    unfolding fg .
  have i1: "pi_new \<in> set (find_format_blocks pi_catalog)" unfolding b by simp
  have i2: "pi_marked \<in> set (find_format_blocks pi_catalog)" unfolding b by simp
  from n1 have n0: "guid_match pi_new \<noteq> None" by simp
  from t [THEN conjunct2, THEN conjunct2, THEN conjunct2, THEN conjunct1,
      THEN bspec, OF i1] n0 n2 n3
  have 2: "''A0'' \<notin> fmt_guid ` set (FormatsDefParser (Some pi_catalog))" by blast
  from t [THEN conjunct2, THEN conjunct2, THEN conjunct2, THEN conjunct2,
      THEN bspec, OF i2] m1 m2
  have 3: "''A1'' \<notin> fmt_guid ` set (FormatsDefParser (Some pi_catalog))" by blast
  from b n1 n2 n3 m1 m2 g 1 2 3 show ?thesis by (intro conjI)
qed

text \<open>
  C1 as stated fails. A block that carries the marker and names the format it replaced
  does not remove that format; neither does a block without a GUID, nor the second
  \<open>replaces\<close> reference of a block.
\<close>

theorem replaces_reference_counterexample:
  "find_format_blocks chain_catalog = [chain_old, chain_older]
   \<and> is_deprecated chain_old
   \<and> replace_match chain_old = Some ''B'' \<and> guid_match chain_older = Some ''B''
   \<and> map fmt_guid (FormatsDefParser (Some chain_catalog)) = [''B'']
   \<and> guid_match '' replaces {B} '' = None \<and> \<not> is_deprecated '' replaces {B} ''
   \<and> replace_match '' replaces {B} '' = Some ''B''
   \<and> map fmt_guid (formats_of_blocks ['' replaces {B} '', '' Guid = {B} '']) = [''B'']
   \<and> \<not> is_deprecated '' Guid = {C} replaces {A} replaces {B} ''
   \<and> map fmt_guid
        (formats_of_blocks ['' Guid = {C} replaces {A} replaces {B} '', '' Guid = {B} ''])
      = [''C'', ''B'']"
proof -
  have 1: "find_format_blocks chain_catalog = [chain_old, chain_older]" by code_simp
  have 2: "is_deprecated chain_old" by code_simp
  have 3: "replace_match chain_old = Some ''B''" by code_simp
  have 4: "guid_match chain_older = Some ''B''" by code_simp
  have 5: "map fmt_guid (FormatsDefParser (Some chain_catalog)) = [''B'']" by code_simp
  have 6: "guid_match '' replaces {B} '' = None" by code_simp
  have 7: "\<not> is_deprecated '' replaces {B} ''" by code_simp
  have 8: "replace_match '' replaces {B} '' = Some ''B''" by code_simp
  have 9: "map fmt_guid (formats_of_blocks ['' replaces {B} '', '' Guid = {B} '']) = [''B'']"
    by code_simp
  have 10: "\<not> is_deprecated '' Guid = {C} replaces {A} replaces {B} ''" by code_simp
  have 11: "map fmt_guid
        (formats_of_blocks ['' Guid = {C} replaces {A} replaces {B} '', '' Guid = {B} ''])
      = [''C'', ''B'']" by code_simp
  from 1 2 3 4 5 6 7 8 9 10 11 show ?thesis by (intro conjI)
qed




text \<open>
  C8, as amended. When no two blocks that have a GUID and carry no marker share their
  GUID, two catalog files whose blocks are the same up to their order retain the same set
  of formats.
\<close>

theorem block_order_irrelevant_for_distinct_guids:
  assumes "mset (find_format_blocks content') = mset (find_format_blocks content)"
    and "distinct (live_guids (find_format_blocks content))"
  shows "set (FormatsDefParser (Some content')) = set (FormatsDefParser (Some content))"
  using formats_of_blocks_permuted [OF assms] by (simp add: FormatsDefParser_blocks)

theorem block_order_witness:
  "find_format_blocks pi_catalog = [pi_replaced, pi_marked, pi_new]
   \<and> find_format_blocks pi_catalog_reordered = [pi_new, pi_replaced, pi_marked]
   \<and> live_guids (find_format_blocks pi_catalog) = [''A0'', ''B2'']
   \<and> set (FormatsDefParser (Some pi_catalog_reordered))
       = set (FormatsDefParser (Some pi_catalog))
   \<and> map fmt_guid (FormatsDefParser (Some pi_catalog)) = [''B2'']"
proof -
  have b: "find_format_blocks pi_catalog = [pi_replaced, pi_marked, pi_new]" by code_simp
  have b': "find_format_blocks pi_catalog_reordered = [pi_new, pi_replaced, pi_marked]"
    by code_simp
  have l: "live_guids (find_format_blocks pi_catalog) = [''A0'', ''B2'']" by code_simp
  have g: "map fmt_guid (FormatsDefParser (Some pi_catalog)) = [''B2'']" by code_simp
  from b b' have m: "mset (find_format_blocks pi_catalog_reordered)
      = mset (find_format_blocks pi_catalog)" by simp
  from l have d: "distinct (live_guids (find_format_blocks pi_catalog))" by simp
  from block_order_irrelevant_for_distinct_guids [OF m d] b b' l g show ?thesis by blast
qed

text \<open>
  C8 as stated fails: of two blocks with one GUID the later one is kept, so exchanging
  them changes the retained format.
\<close>

theorem block_order_counterexample:
  "find_format_blocks twin_catalog = [twin_160, twin_382]
   \<and> find_format_blocks twin_catalog_reordered = [twin_382, twin_160]
   \<and> map fmt_width (FormatsDefParser (Some twin_catalog)) = [Some 382]
   \<and> map fmt_width (FormatsDefParser (Some twin_catalog_reordered)) = [Some 160]"
proof -
  have 1: "find_format_blocks twin_catalog = [twin_160, twin_382]" by code_simp
  have 2: "find_format_blocks twin_catalog_reordered = [twin_382, twin_160]" by code_simp
  have 3: "map fmt_width (FormatsDefParser (Some twin_catalog)) = [Some 382]" by code_simp
  have 4: "map fmt_width (FormatsDefParser (Some twin_catalog_reordered)) = [Some 160]"
    by code_simp
  from 1 2 3 4 show ?thesis by (intro conjI)
qed

text \<open>
  C9, as amended. When every format of the list has a name, the grouping returns groups
  with distinct keys; each group is not empty and holds exactly the formats, in their
  order, whose name has the key as its first word; every format whose name has a first
  word is in the group of that word and so in no other; a format whose name is only
  whitespace is in no group.
\<close>

theorem group_by_model_partitions_named_formats:
  assumes "\<forall>f \<in> set formats. fmt_name f \<noteq> None"
  shows "\<exists>groups. get_formats_grouped_by_model formats = Inr groups
           \<and> distinct (map fst groups)
           \<and> (\<forall>(k, g) \<in> set groups.
                 g \<noteq> [] \<and> g = filter (\<lambda>f. model_of f = Some k) formats)
           \<and> (\<forall>f \<in> set formats. \<forall>k. model_of f = Some k \<longrightarrow> k \<in> fst ` set groups)
           \<and> (\<forall>f \<in> set formats. model_of f = None \<longrightarrow> (\<forall>(k, g) \<in> set groups. f \<notin> set g))"
proof -
  from group_loop_total [OF assms] obtain gs where g: "group_loop formats [] = Inr gs"
    by blast
  from group_loop_sound [OF g] have d: "distinct (map fst gs)"
    and ks: "fst ` set gs = {k. \<exists>f \<in> set formats. model_of f = Some k}"
    and gr: "\<And>k. grp gs k = filter (\<lambda>f. model_of f = Some k) formats"
    by (simp_all add: grp_def)
  have m: "g' \<noteq> [] \<and> g' = filter (\<lambda>f. model_of f = Some k) formats"
    if "(k, g') \<in> set gs" for k g'
  proof -
    from that d have "map_of gs k = Some g'" by simp
    then have e: "g' = filter (\<lambda>f. model_of f = Some k) formats"
      using gr [of k] by (simp add: grp_def)
    from that have "k \<in> fst ` set gs" by force
    with ks obtain f where "f \<in> set formats" "model_of f = Some k" by auto
    then have "filter (\<lambda>f. model_of f = Some k) formats \<noteq> []"
      by (auto simp: filter_empty_conv)
    with e show ?thesis by simp
  qed
  have n: "f \<notin> set g'" if "model_of f = None" "(k, g') \<in> set gs" for f k g'
  proof
    assume "f \<in> set g'"
    moreover from m [OF that(2)] have "g' = filter (\<lambda>f. model_of f = Some k) formats" by simp
    ultimately have "model_of f = Some k" by simp
    with that(1) show False by simp
  qed
  from g d ks m n show ?thesis
    by (auto simp: get_formats_grouped_by_model_def)
qed

theorem group_by_model_witness:
  "map fmt_name (formats_of_blocks named_blocks)
     = [Some ''PI640 32Hz'', Some ''Xi400 80Hz'', Some ''PI640 125Hz'']
   \<and> (\<exists>groups. get_formats_grouped_by_model (formats_of_blocks named_blocks) = Inr groups
         \<and> map (\<lambda>(k, g). (k, map fmt_guid g)) groups
             = [(''PI640'', [''P1'', ''P2'']), (''Xi400'', [''X1''])]
         \<and> distinct (map fst groups)
         \<and> (\<forall>(k, g) \<in> set groups.
               g = filter (\<lambda>f. model_of f = Some k) (formats_of_blocks named_blocks)))"
proof -
  have n: "map fmt_name (formats_of_blocks named_blocks)
     = [Some ''PI640 32Hz'', Some ''Xi400 80Hz'', Some ''PI640 125Hz'']" by code_simp
  have h: "\<forall>f \<in> set (formats_of_blocks named_blocks). fmt_name f \<noteq> None"
  proof
    fix f assume "f \<in> set (formats_of_blocks named_blocks)"
    then have "fmt_name f \<in> set (map fmt_name (formats_of_blocks named_blocks))" by simp
    then show "fmt_name f \<noteq> None" unfolding n by auto
  qed
  have e: "(case get_formats_grouped_by_model (formats_of_blocks named_blocks) of
              Inl e \<Rightarrow> []
            | Inr groups \<Rightarrow> map (\<lambda>(k, g). (k, map fmt_guid g)) groups)
           = [(''PI640'', [''P1'', ''P2'']), (''Xi400'', [''X1''])]" by code_simp
  from group_by_model_partitions_named_formats [OF h] obtain groups where
    g: "get_formats_grouped_by_model (formats_of_blocks named_blocks) = Inr groups"
    and d: "distinct (map fst groups)"
    and p: "\<forall>(k, g) \<in> set groups.
               g \<noteq> [] \<and> g = filter (\<lambda>f. model_of f = Some k) (formats_of_blocks named_blocks)"
    by blast
  from e g have "map (\<lambda>(k, g). (k, map fmt_guid g)) groups
             = [(''PI640'', [''P1'', ''P2'']), (''Xi400'', [''X1''])]" by simp
  with n g d p show ?thesis by auto
qed

text \<open>
  C9 as stated fails: a retained format whose name is one space is put in no group, and
  a retained format of a block without a name makes the grouping raise KeyError.
\<close>

theorem group_by_model_counterexample:
  "map fmt_name (formats_of_blocks [blank_name_block]) = [Some '' '']
   \<and> get_formats_grouped_by_model (formats_of_blocks [blank_name_block]) = Inr []
   \<and> map fmt_name (formats_of_blocks [no_name_block]) = [None]
   \<and> get_formats_grouped_by_model (formats_of_blocks [no_name_block]) = Inl KeyError"
proof -
  have 1: "map fmt_name (formats_of_blocks [blank_name_block]) = [Some '' '']" by code_simp
  have 2: "get_formats_grouped_by_model (formats_of_blocks [blank_name_block]) = Inr []"
    by code_simp
  have 3: "map fmt_name (formats_of_blocks [no_name_block]) = [None]" by code_simp
  have 4: "get_formats_grouped_by_model (formats_of_blocks [no_name_block]) = Inl KeyError"
    by code_simp
  from 1 2 3 4 show ?thesis by (intro conjI)
qed

section \<open>Lemmas on the frame tick\<close>

lemma length_overwrite: "length (overwrite buf new) = length buf"
  by (simp add: overwrite_def)

lemma acquire_fields:
  "thermal_width (acquire a s) = thermal_width s"
  "thermal_height (acquire a s) = thermal_height s"
  "palette_width (acquire a s) = palette_width s"
  "palette_height (acquire a s) = palette_height s"
  "frame_count (acquire a s) = frame_count s"
  "fps (acquire a s) = fps s"
  "fps_label (acquire a s) = fps_label s"
  "last_update_time (acquire a s) = last_update_time s"
  "np_thermal (acquire a s) = overwrite (np_thermal s) (acq_thermal a)"
  "np_img (acquire a s) = overwrite (np_img s) (acq_palette a)"
  "printed (acquire a s) = printed s"
  by (simp_all add: acquire_def sdk_call_def)

lemma acquire_settings:
  "libir (camera_manager (acquire a s)) = libir (camera_manager s)"
  "sdk_calls (camera_manager (acquire a s))
     = sdk_calls (camera_manager s) @ [Get_thermal_palette_image_metadata]"
  "palette_combo (acquire a s) = palette_combo s"
  "auto_calib_checkbox (acquire a s) = auto_calib_checkbox s"
  "timer_active (acquire a s) = timer_active s"
  "recording (acquire a s) = recording s"
  "video_writer (acquire a s) = video_writer s"
  by (simp_all add: acquire_def sdk_call_def)

lemma acquire_labels:
  "image_label (acquire a s) = image_label s"
  "temp_label (acquire a s) = temp_label s"
  "avg_temp_label (acquire a s) = avg_temp_label s"
  "metadata_labels (acquire a s) = metadata_labels s"
  "resolution_label (acquire a s) = resolution_label s"
  by (simp_all add: acquire_def sdk_call_def)

lemma show_frame_fields:
  "thermal_width (show_frame img s) = thermal_width s"
  "thermal_height (show_frame img s) = thermal_height s"
  "frame_count (show_frame img s) = frame_count s"
  "fps (show_frame img s) = fps s"
  "fps_label (show_frame img s) = fps_label s"
  "last_update_time (show_frame img s) = last_update_time s"
  "np_thermal (show_frame img s) = np_thermal s"
  by (simp_all add: show_frame_def Let_def split: option.splits)

lemma update_fps_fields:
  "thermal_width (update_fps t s) = thermal_width s"
  "thermal_height (update_fps t s) = thermal_height s"
  "np_thermal (update_fps t s) = np_thermal s"
  by (simp_all add: update_fps_def Let_def)

lemma update_fps_idle:
  assumes "t - last_update_time s \<le> 1 / 2"
  shows "fps (update_fps t s) = fps s" and "fps_label (update_fps t s) = fps_label s"
    and "last_update_time (update_fps t s) = last_update_time s"
    and "frame_count (update_fps t s) = frame_count s + 1"
  using assms by (simp_all add: update_fps_def Let_def)

lemma update_fps_fires:
  assumes "1 / 2 < t - last_update_time s"
  shows "fps (update_fps t s) = of_int (frame_count s + 1) / (t - last_update_time s)"
    and "fps_label (update_fps t s) = of_int (frame_count s + 1) / (t - last_update_time s)"
    and "last_update_time (update_fps t s) = t"
    and "frame_count (update_fps t s) = 0"
  using assms by (simp_all add: update_fps_def Let_def)

lemma update_frame_failed:
  "acq_ret a \<noteq> 0 \<Longrightarrow>
     update_frame a t s = (acquire a s)\<lparr>printed := printed s @ [Frame_error (acq_ret a)]\<rparr>"
  by (simp add: update_frame_def Let_def acquire_fields)

lemma update_frame_refused:
  "acq_ret a = 0 \<Longrightarrow> reshape_rgb (acquire a s) = Inl e \<Longrightarrow>
     update_frame a t s = (acquire a s)\<lparr>printed := printed s @ [Update_error e]\<rparr>"
  by (simp add: update_frame_def Let_def acquire_fields)

lemma update_frame_shown:
  assumes "acq_ret a = 0" and "reshape_rgb (acquire a s) = Inr img"
  shows "fps (update_frame a t s) = fps (update_fps t (show_frame img (acquire a s)))"
    and "fps_label (update_frame a t s)
           = fps_label (update_fps t (show_frame img (acquire a s)))"
    and "last_update_time (update_frame a t s)
           = last_update_time (update_fps t (show_frame img (acquire a s)))"
    and "frame_count (update_frame a t s)
           = frame_count (update_fps t (show_frame img (acquire a s)))"
  using assms by (simp_all add: update_frame_def Let_def split: sum.splits)

lemma update_frame_center:
  assumes "acq_ret a = 0" and "reshape_rgb (acquire a s) = Inr img"
    and "np_getitem (np_thermal (acquire a s))
           (center_index (thermal_height s) (thermal_width s)) = Inr raw"
  shows "temp_label (update_frame a t s) = Some raw"
  using assms
  by (simp add: update_frame_def Let_def update_fps_fields show_frame_fields acquire_fields)

lemma center_index_bounds:
  assumes "0 < w" and "0 < h"
  shows "0 \<le> center_index h w" and "center_index h w < w * h"
proof -
  from assms show "0 \<le> center_index h w"
    by (simp add: center_index_def pos_imp_zdiv_nonneg_iff)
  have "h div 2 * w \<le> (h - 1) * w"
  proof (rule mult_right_mono)
    from assms(2) show "h div 2 \<le> h - 1" by linarith
    from assms(1) show "0 \<le> w" by simp
  qed
  moreover from assms(1) have "w div 2 < w" by linarith
  ultimately have "h div 2 * w + w div 2 < (h - 1) * w + w" by linarith
  also have "\<dots> = w * h" by (simp add: algebra_simps)
  finally show "center_index h w < w * h" by (simp add: center_index_def)
qed

lemma center_index_row_col:
  assumes "0 < w"
  shows "center_index h w div w = h div 2" and "center_index h w mod w = w div 2"
proof -
  from assms have a: "0 \<le> w div 2" "w div 2 < w" by linarith+
  have e: "center_index h w = w div 2 + (h div 2) * w" by (simp add: center_index_def)
  from a assms show "center_index h w div w = h div 2"
    unfolding e by (simp add: div_pos_pos_trivial)
  from a assms show "center_index h w mod w = w div 2"
    unfolding e by (simp add: mod_pos_pos_trivial)
qed

section \<open>The frame tick\<close>

text \<open>
  C3. On a tick whose frame is acquired and shown, with a thermal frame of width and
  height above 0 held in a buffer of width times height samples, the centre label gets
  the sample at index (height div 2) * width + (width div 2) of the flat buffer. The
  index lies in the buffer, in row height div 2 and column width div 2, with the
  divisions rounding down: it is 153920 for 640 by 480 and 154160 for 641 by 481.
\<close>

theorem center_temperature_sample:
  assumes "acq_ret a = 0" and "reshape_rgb (acquire a s) = Inr img"
    and "0 < thermal_width s" and "0 < thermal_height s"
    and "int (length (np_thermal s)) = thermal_width s * thermal_height s"
  shows "temp_label (update_frame a t s)
           = Some (np_thermal (acquire a s)
                    ! nat ((thermal_height s div 2) * thermal_width s + thermal_width s div 2))
         \<and> 0 \<le> center_index (thermal_height s) (thermal_width s)
         \<and> center_index (thermal_height s) (thermal_width s)
             < thermal_width s * thermal_height s
         \<and> center_index (thermal_height s) (thermal_width s) div thermal_width s
             = thermal_height s div 2
         \<and> center_index (thermal_height s) (thermal_width s) mod thermal_width s
             = thermal_width s div 2
         \<and> center_index 480 640 = 153920
         \<and> center_index 481 641 = 154160"
proof -
  let ?i = "center_index (thermal_height s) (thermal_width s)"
  from assms(3,4) have b: "0 \<le> ?i" "?i < thermal_width s * thermal_height s"
    by (rule center_index_bounds)+
  from assms(5) have "int (length (np_thermal (acquire a s)))
      = thermal_width s * thermal_height s"
    by (simp add: acquire_fields length_overwrite)
  with b have "np_getitem (np_thermal (acquire a s)) ?i
      = Inr (np_thermal (acquire a s) ! nat ?i)"
    by (simp add: np_getitem_def)
  from update_frame_center [OF assms(1,2) this]
  have 1: "temp_label (update_frame a t s)
           = Some (np_thermal (acquire a s)
                    ! nat ((thermal_height s div 2) * thermal_width s + thermal_width s div 2))"
    by (simp add: center_index_def)
  from assms(3) have r: "?i div thermal_width s = thermal_height s div 2"
    "?i mod thermal_width s = thermal_width s div 2"
    by (rule center_index_row_col)+
  have v: "center_index 480 640 = 153920" "center_index 481 641 = 154160"
    by (simp_all add: center_index_def)
  from 1 b r v show ?thesis by (intro conjI)
qed

theorem center_temperature_sample_witness:
  "acq_ret good_frame = 0
   \<and> reshape_rgb (acquire good_frame open_app) = Inr [3, 2, 1, 6, 5, 4]
   \<and> thermal_width open_app = 4 \<and> thermal_height open_app = 2
   \<and> length (np_thermal open_app) = 8
   \<and> np_thermal (acquire good_frame open_app)
       = [1000, 1001, 1002, 1003, 1004, 1005, 1006, 1007]
   \<and> center_index 2 4 = 6
   \<and> temp_label (update_frame good_frame (3 / 4) open_app) = Some 1006"
proof -
  have 1: "acq_ret good_frame = 0" by (simp add: good_frame_def)
  have 2: "reshape_rgb (acquire good_frame open_app) = Inr [3, 2, 1, 6, 5, 4]" by code_simp
  have 3: "thermal_width open_app = 4" "thermal_height open_app = 2"
    by (simp_all add: open_app_def)
  have 4: "length (np_thermal open_app) = 8" by (simp add: open_app_def)
  have 5: "np_thermal (acquire good_frame open_app)
       = [1000, 1001, 1002, 1003, 1004, 1005, 1006, 1007]" by code_simp
  have 6: "center_index 2 4 = 6" by (simp add: center_index_def)
  from 3 4 have l: "int (length (np_thermal open_app))
      = thermal_width open_app * thermal_height open_app" by simp
  from 3 have p: "0 < thermal_width open_app" "0 < thermal_height open_app" by simp_all
  from center_temperature_sample [OF 1 2 p l, of "3 / 4"]
  have "temp_label (update_frame good_frame (3 / 4) open_app)
      = Some (np_thermal (acquire good_frame open_app) ! nat (2 div 2 * 4 + 4 div 2))"
    unfolding 3 by (rule conjunct1)
  then have 7: "temp_label (update_frame good_frame (3 / 4) open_app) = Some 1006"
    unfolding 5 by simp
  from 1 2 3 4 5 6 7 show ?thesis by (intro conjI)
qed

text \<open>
  C5. On every tick, while the time since the last recomputation is at most half a
  second the frame rate, its label and the time anchor stay as they are, and a frame that
  was acquired and shown is counted. On a tick whose frame is acquired and shown more
  than half a second after the anchor, the frame rate becomes the count, this frame
  included, divided by the elapsed time, the counter becomes 0 and the anchor the current
  time.
\<close>

theorem fps_recompute_window:
  "(current_time - last_update_time s \<le> 1 / 2
      \<longrightarrow> fps (update_frame a current_time s) = fps s
          \<and> fps_label (update_frame a current_time s) = fps_label s
          \<and> last_update_time (update_frame a current_time s) = last_update_time s)
   \<and> (acq_ret a = 0 \<and> reshape_rgb (acquire a s) = Inr img
        \<and> current_time - last_update_time s \<le> 1 / 2
      \<longrightarrow> frame_count (update_frame a current_time s) = frame_count s + 1)
   \<and> (acq_ret a = 0 \<and> reshape_rgb (acquire a s) = Inr img
        \<and> 1 / 2 < current_time - last_update_time s
      \<longrightarrow> fps (update_frame a current_time s)
            = of_int (frame_count s + 1) / (current_time - last_update_time s)
          \<and> frame_count (update_frame a current_time s) = 0
          \<and> last_update_time (update_frame a current_time s) = current_time)"
proof -
  let ?s' = "update_frame a current_time s"
  have idle: "fps ?s' = fps s \<and> fps_label ?s' = fps_label s
      \<and> last_update_time ?s' = last_update_time s"
    if e: "current_time - last_update_time s \<le> 1 / 2"
  proof (cases "acq_ret a = 0")
    case False
    then show ?thesis by (simp add: update_frame_failed acquire_fields)
  next
    case True
    show ?thesis
    proof (cases "reshape_rgb (acquire a s)")
      case (Inl x)
      with True show ?thesis by (simp add: update_frame_refused acquire_fields)
    next
      case (Inr x)
      from e have "current_time - last_update_time (show_frame x (acquire a s)) \<le> 1 / 2"
        by (simp add: show_frame_fields acquire_fields)
      from update_fps_idle(1-3) [OF this] update_frame_shown(1-3) [OF True Inr]
      show ?thesis by (simp add: show_frame_fields acquire_fields)
    qed
  qed
  have count: "frame_count ?s' = frame_count s + 1"
    if "acq_ret a = 0" "reshape_rgb (acquire a s) = Inr img"
      "current_time - last_update_time s \<le> 1 / 2"
  proof -
    from that(3) have "current_time - last_update_time (show_frame img (acquire a s)) \<le> 1 / 2"
      by (simp add: show_frame_fields acquire_fields)
    from update_fps_idle(4) [OF this] update_frame_shown(4) [OF that(1,2)]
    show ?thesis by (simp add: show_frame_fields acquire_fields)
  qed
  have fire: "fps ?s' = of_int (frame_count s + 1) / (current_time - last_update_time s)
      \<and> frame_count ?s' = 0 \<and> last_update_time ?s' = current_time"
    if "acq_ret a = 0" "reshape_rgb (acquire a s) = Inr img"
      "1 / 2 < current_time - last_update_time s"
  proof -
    from that(3) have "1 / 2 < current_time - last_update_time (show_frame img (acquire a s))"
      by (simp add: show_frame_fields acquire_fields)
    from update_fps_fires(1,3,4) [OF this] update_frame_shown(1,3,4) [OF that(1,2)]
    show ?thesis by (simp add: show_frame_fields acquire_fields)
  qed
  from idle count fire show ?thesis by blast
qed

theorem fps_recompute_window_witness:
  "acq_ret good_frame = 0
   \<and> reshape_rgb (acquire good_frame open_app) = Inr [3, 2, 1, 6, 5, 4]
   \<and> last_update_time open_app = 0 \<and> frame_count open_app = 3 \<and> fps open_app = 0
   \<and> fps (update_frame good_frame (1 / 2) open_app) = 0
   \<and> last_update_time (update_frame good_frame (1 / 2) open_app) = 0
   \<and> frame_count (update_frame good_frame (1 / 2) open_app) = 4
   \<and> fps (update_frame good_frame (3 / 4) open_app) = 16 / 3
   \<and> frame_count (update_frame good_frame (3 / 4) open_app) = 0
   \<and> last_update_time (update_frame good_frame (3 / 4) open_app) = 3 / 4"
proof -
  have 1: "acq_ret good_frame = 0" by (simp add: good_frame_def)
  have 2: "reshape_rgb (acquire good_frame open_app) = Inr [3, 2, 1, 6, 5, 4]" by code_simp
  have 3: "last_update_time open_app = 0" "frame_count open_app = 3" "fps open_app = 0"
    by (simp_all add: open_app_def fresh_app_def)
  note early = fps_recompute_window
    [where a = good_frame and s = open_app and current_time = "1 / 2"
       and img = "[3, 2, 1, 6, 5, 4]"]
  note late = fps_recompute_window
    [where a = good_frame and s = open_app and current_time = "3 / 4"
       and img = "[3, 2, 1, 6, 5, 4]"]
  from early 1 2 3 have 4: "fps (update_frame good_frame (1 / 2) open_app) = 0"
    "last_update_time (update_frame good_frame (1 / 2) open_app) = 0"
    "frame_count (update_frame good_frame (1 / 2) open_app) = 4"
    by simp_all
  from late 1 2 3 have 5: "fps (update_frame good_frame (3 / 4) open_app) = 16 / 3"
    "frame_count (update_frame good_frame (3 / 4) open_app) = 0"
    "last_update_time (update_frame good_frame (3 / 4) open_app) = 3 / 4"
    by simp_all
  from 1 2 3 4 5 show ?thesis by (intro conjI)
qed

text \<open>
  C7. On a tick on which the library answers a status other than 0, the method returns
  (no exception leaves it) after that one request: the error line is printed, the
  buffers hold what the library left in them, and nothing else changes - the library
  stays loaded, the dimensions, the frame counter, the frame rate and its anchor, the
  selected palette and shutter mode, the recording and every label are as before, and
  the frame timer keeps running.
\<close>

theorem failed_acquisition_skips_the_tick:
  assumes "acq_ret a \<noteq> 0"
  shows "update_frame a t s = (acquire a s)\<lparr>printed := printed s @ [Frame_error (acq_ret a)]\<rparr>
    \<and> sdk_calls (camera_manager (update_frame a t s))
        = sdk_calls (camera_manager s) @ [Get_thermal_palette_image_metadata]
    \<and> libir (camera_manager (update_frame a t s)) = libir (camera_manager s)
    \<and> thermal_width (update_frame a t s) = thermal_width s
    \<and> thermal_height (update_frame a t s) = thermal_height s
    \<and> palette_width (update_frame a t s) = palette_width s
    \<and> palette_height (update_frame a t s) = palette_height s
    \<and> length (np_thermal (update_frame a t s)) = length (np_thermal s)
    \<and> length (np_img (update_frame a t s)) = length (np_img s)
    \<and> frame_count (update_frame a t s) = frame_count s
    \<and> fps (update_frame a t s) = fps s
    \<and> fps_label (update_frame a t s) = fps_label s
    \<and> last_update_time (update_frame a t s) = last_update_time s
    \<and> palette_combo (update_frame a t s) = palette_combo s
    \<and> auto_calib_checkbox (update_frame a t s) = auto_calib_checkbox s
    \<and> timer_active (update_frame a t s) = timer_active s
    \<and> recording (update_frame a t s) = recording s
    \<and> video_writer (update_frame a t s) = video_writer s
    \<and> image_label (update_frame a t s) = image_label s
    \<and> temp_label (update_frame a t s) = temp_label s
    \<and> avg_temp_label (update_frame a t s) = avg_temp_label s
    \<and> metadata_labels (update_frame a t s) = metadata_labels s
    \<and> resolution_label (update_frame a t s) = resolution_label s"
proof -
  note u = update_frame_failed [OF assms, of t s]
  have 0: "update_frame a t s
      = (acquire a s)\<lparr>printed := printed s @ [Frame_error (acq_ret a)]\<rparr>" by (rule u)
  have 1: "sdk_calls (camera_manager (update_frame a t s))
        = sdk_calls (camera_manager s) @ [Get_thermal_palette_image_metadata]"
    "libir (camera_manager (update_frame a t s)) = libir (camera_manager s)"
    unfolding u by (simp_all add: acquire_settings)
  have 2: "thermal_width (update_frame a t s) = thermal_width s"
    "thermal_height (update_frame a t s) = thermal_height s"
    "palette_width (update_frame a t s) = palette_width s"
    "palette_height (update_frame a t s) = palette_height s"
    unfolding u by (simp_all add: acquire_fields)
  have 3: "length (np_thermal (update_frame a t s)) = length (np_thermal s)"
    "length (np_img (update_frame a t s)) = length (np_img s)"
    unfolding u by (simp_all add: acquire_fields length_overwrite)
  have 4: "frame_count (update_frame a t s) = frame_count s"
    "fps (update_frame a t s) = fps s"
    "fps_label (update_frame a t s) = fps_label s"
    "last_update_time (update_frame a t s) = last_update_time s"
    unfolding u by (simp_all add: acquire_fields)
  have 5: "palette_combo (update_frame a t s) = palette_combo s"
    "auto_calib_checkbox (update_frame a t s) = auto_calib_checkbox s"
    "timer_active (update_frame a t s) = timer_active s"
    "recording (update_frame a t s) = recording s"
    "video_writer (update_frame a t s) = video_writer s"
    unfolding u by (simp_all add: acquire_settings)
  have 6: "image_label (update_frame a t s) = image_label s"
    "temp_label (update_frame a t s) = temp_label s"
    "avg_temp_label (update_frame a t s) = avg_temp_label s"
    "metadata_labels (update_frame a t s) = metadata_labels s"
    "resolution_label (update_frame a t s) = resolution_label s"
    unfolding u by (simp_all add: acquire_labels)
  from 0 1 2 3 4 5 6 show ?thesis by (intro conjI)
qed

theorem failed_acquisition_witness:
  "acq_ret bad_frame = - 1
   \<and> printed (update_frame bad_frame (3 / 4) open_app) = [Frame_error (- 1)]
   \<and> sdk_calls (camera_manager (update_frame bad_frame (3 / 4) open_app))
       = [Get_thermal_palette_image_metadata]
   \<and> frame_count (update_frame bad_frame (3 / 4) open_app) = 3
   \<and> last_update_time (update_frame bad_frame (3 / 4) open_app) = 0
   \<and> temp_label (update_frame bad_frame (3 / 4) open_app) = None
   \<and> timer_active (update_frame bad_frame (3 / 4) open_app)
   \<and> temp_label (update_frame good_frame 1 (update_frame bad_frame (3 / 4) open_app))
       = Some 1006
   \<and> frame_count (update_frame good_frame 1 (update_frame bad_frame (3 / 4) open_app)) = 0"
proof -
  have r: "acq_ret bad_frame = - 1" by (simp add: bad_frame_def)
  then have n: "acq_ret bad_frame \<noteq> 0" by simp
  have o: "printed open_app = []" "sdk_calls (camera_manager open_app) = []"
    "frame_count open_app = 3" "last_update_time open_app = 0" "temp_label open_app = None"
    "timer_active open_app"
    by (simp_all add: open_app_def fresh_app_def)
  note t = failed_acquisition_skips_the_tick [OF n, of "3 / 4" open_app]
  from t [THEN conjunct1]
  have "printed (update_frame bad_frame (3 / 4) open_app)
      = printed open_app @ [Frame_error (acq_ret bad_frame)]" by simp
  with o r have 1: "printed (update_frame bad_frame (3 / 4) open_app) = [Frame_error (- 1)]"
    by simp
  from t [THEN conjunct2, THEN conjunct1] o
  have 2: "sdk_calls (camera_manager (update_frame bad_frame (3 / 4) open_app))
       = [Get_thermal_palette_image_metadata]" by simp
  from t [THEN conjunct2, THEN conjunct2, THEN conjunct2, THEN conjunct2, THEN conjunct2, THEN conjunct2, THEN conjunct2, THEN conjunct2, THEN conjunct2, THEN conjunct1] o
  have 3: "frame_count (update_frame bad_frame (3 / 4) open_app) = 3" by simp
  from t [THEN conjunct2, THEN conjunct2, THEN conjunct2, THEN conjunct2, THEN conjunct2, THEN conjunct2, THEN conjunct2, THEN conjunct2, THEN conjunct2, THEN conjunct2, THEN conjunct2, THEN conjunct2, THEN conjunct1] o
  have 4: "last_update_time (update_frame bad_frame (3 / 4) open_app) = 0" by simp
  from t [THEN conjunct2, THEN conjunct2, THEN conjunct2, THEN conjunct2, THEN conjunct2, THEN conjunct2, THEN conjunct2, THEN conjunct2, THEN conjunct2, THEN conjunct2, THEN conjunct2, THEN conjunct2, THEN conjunct2, THEN conjunct2, THEN conjunct2, THEN conjunct2, THEN conjunct2, THEN conjunct2, THEN conjunct2, THEN conjunct1] o
  have 5: "temp_label (update_frame bad_frame (3 / 4) open_app) = None" by simp
  from t [THEN conjunct2, THEN conjunct2, THEN conjunct2, THEN conjunct2, THEN conjunct2, THEN conjunct2, THEN conjunct2, THEN conjunct2, THEN conjunct2, THEN conjunct2, THEN conjunct2, THEN conjunct2, THEN conjunct2, THEN conjunct2, THEN conjunct2, THEN conjunct1] o
  have 6: "timer_active (update_frame bad_frame (3 / 4) open_app)" by simp
  have 7: "temp_label (update_frame good_frame 1 (update_frame bad_frame (3 / 4) open_app))
       = Some 1006" by code_simp
  have 8: "frame_count (update_frame good_frame 1 (update_frame bad_frame (3 / 4) open_app))
       = 0" by code_simp
  from r 1 2 3 4 5 6 7 8 show ?thesis by (intro conjI)
qed

section \<open>Opening and closing the camera\<close>




text \<open>
  C10. Whenever the window's \<open>init_camera\<close> returns true, the last request it made to
  the library, after the requests of the open, is to set the shutter mode 1, which is the
  automatic mode; a status other than 0 for it is printed as the last line and nothing
  more: with any other status for that request the method returns true as well.
\<close>

theorem open_sets_auto_shutter_mode:
  assumes "init_camera r xml_path s = Inr (True, s')"
  shows "(\<exists>calls. sdk_calls (camera_manager s') = calls @ [Set_shutter_mode SHUTTER_MODE_AUTO]
            \<and> Usb_init xml_path \<in> set calls)
    \<and> (set_shutter_mode_ret r \<noteq> 0 \<longrightarrow>
         (\<exists>lines. printed s'
                    = lines @ [Initial_shutter_mode_error (set_shutter_mode_ret r)]))
    \<and> (\<forall>ret. \<exists>s''. init_camera (r\<lparr>set_shutter_mode_ret := ret\<rparr>) xml_path s
                        = Inr (True, s''))"
proof -
  from assms obtain camera_info cm where
    c: "CameraManager_init_camera r xml_path (camera_manager s) = (Some camera_info, cm)"
    by (auto simp: init_camera_def split: prod.splits option.splits)
  then have u: "Usb_init xml_path \<in> set (sdk_calls cm)"
    by (auto simp: CameraManager_init_camera_def init_library_def Let_def
        split: if_splits dll_load.splits prod.splits)
  have "CameraManager_init_camera (r\<lparr>set_shutter_mode_ret := ret\<rparr>) xml_path
      (camera_manager s) = CameraManager_init_camera r xml_path (camera_manager s)" for ret
    by (simp add: CameraManager_init_camera_def Let_def split: prod.splits)
  with c have k: "CameraManager_init_camera (r\<lparr>set_shutter_mode_ret := ret\<rparr>) xml_path
      (camera_manager s) = (Some camera_info, cm)" for ret
    by simp
  let ?s1 = "s\<lparr>camera_manager := cm,
               thermal_width := info_thermal_width camera_info,
               thermal_height := info_thermal_height camera_info,
               palette_width := info_palette_width camera_info,
               palette_height := info_palette_height camera_info\<rparr>"
  from assms c obtain model_name where m: "detect_camera_model ?s1 = Inr model_name"
    by (auto simp: init_camera_def Let_def split: sum.splits)
  let ?s2 = "?s1\<lparr>camera_info_label :=
               Some (model_name, thermal_width ?s1, thermal_height ?s1,
                     info_serial camera_info)\<rparr>"
  from assms c m obtain s3 where a: "update_available_formats ?s2 = Inr s3"
    by (auto simp: init_camera_def Let_def split: sum.splits)
  from assms c m a obtain thermal :: "16 word list" where
    z1: "np_zeros (thermal_width s3 * thermal_height s3) = Inr thermal"
    by (auto simp: init_camera_def Let_def split: sum.splits)
  from assms c m a z1 obtain img :: "8 word list" where
    z2: "np_zeros (palette_width s3 * palette_height s3 * 3) = Inr img"
    by (auto simp: init_camera_def Let_def split: sum.splits)
  let ?s4 = "s3\<lparr>np_thermal := thermal, np_img := img,
               metadata := \<lparr>counter = 0, counterHW = 0, timestamp = 0,
                             timestampMedia = 0, flagState = 0,
                             tempChip = 0, tempFlag = 0, tempBox = 0\<rparr>\<rparr>"
  let ?s5 = "set_palette (set_palette_ret r) (palette_combo ?s4) ?s4"
  let ?s6 = "sdk_call (Set_shutter_mode 1) ?s5"
  have f: "init_camera (r\<lparr>set_shutter_mode_ret := ret\<rparr>) xml_path s
      = Inr (True, if ret \<noteq> 0
                   then ?s6\<lparr>printed := printed ?s6 @ [Initial_shutter_mode_error ret]\<rparr>
                   else ?s6)" for ret
    using k [of ret] m a z1 z2 by (simp add: init_camera_def Let_def)
  from f [of "set_shutter_mode_ret r"] assms
  have s': "s' = (if set_shutter_mode_ret r \<noteq> 0
                  then ?s6\<lparr>printed := printed ?s6
                         @ [Initial_shutter_mode_error (set_shutter_mode_ret r)]\<rparr>
                  else ?s6)" by simp
  from a have "camera_manager s3 = cm"
    by (auto simp: update_available_formats_def split: sum.splits)
  then have "set (sdk_calls cm) \<subseteq> set (sdk_calls (camera_manager ?s5))"
    by (auto simp: set_palette_def PaletteManager_set_palette_def split: prod.splits if_splits)
  with u have "Usb_init xml_path \<in> set (sdk_calls (camera_manager ?s5))" by blast
  moreover from s' have "sdk_calls (camera_manager s')
      = sdk_calls (camera_manager ?s5) @ [Set_shutter_mode SHUTTER_MODE_AUTO]"
    by (simp add: sdk_call_def SHUTTER_MODE_AUTO_def)
  ultimately have 1: "\<exists>calls. sdk_calls (camera_manager s')
        = calls @ [Set_shutter_mode SHUTTER_MODE_AUTO] \<and> Usb_init xml_path \<in> set calls"
    by blast
  from s' have 2: "set_shutter_mode_ret r \<noteq> 0 \<longrightarrow>
         (\<exists>lines. printed s'
                    = lines @ [Initial_shutter_mode_error (set_shutter_mode_ret r)])"
    by simp
  from f have 3: "\<forall>ret. \<exists>s''. init_camera (r\<lparr>set_shutter_mode_ret := ret\<rparr>) xml_path s
                        = Inr (True, s'')" by blast
  from 1 2 3 show ?thesis by (intro conjI)
qed

theorem open_sets_auto_shutter_mode_witness:
  "set_shutter_mode_ret small_camera = 5
   \<and> (\<exists>s'. init_camera small_camera ''generic.xml'' fresh_app = Inr (True, s')
         \<and> sdk_calls (camera_manager s')
             = [Usb_init ''generic.xml'', Get_thermal_image_size, Get_palette_image_size,
                Get_serial, Set_palette 6, Set_shutter_mode 1]
         \<and> printed s' = [Palette_set ''Iron'', Initial_shutter_mode_error 5]
         \<and> (\<exists>calls. sdk_calls (camera_manager s')
                       = calls @ [Set_shutter_mode SHUTTER_MODE_AUTO]))"
proof -
  have r: "set_shutter_mode_ret small_camera = 5" by (simp add: small_camera_def)
  have e: "(case init_camera small_camera ''generic.xml'' fresh_app of
              Inl e \<Rightarrow> None
            | Inr (ok, s') \<Rightarrow> Some (ok, sdk_calls (camera_manager s'), printed s'))
      = Some (True,
              [Usb_init ''generic.xml'', Get_thermal_image_size, Get_palette_image_size,
               Get_serial, Set_palette 6, Set_shutter_mode 1],
              [Palette_set ''Iron'', Initial_shutter_mode_error 5])" by code_simp
  then obtain s' where i: "init_camera small_camera ''generic.xml'' fresh_app = Inr (True, s')"
    and c: "sdk_calls (camera_manager s')
             = [Usb_init ''generic.xml'', Get_thermal_image_size, Get_palette_image_size,
                Get_serial, Set_palette 6, Set_shutter_mode 1]"
    and p: "printed s' = [Palette_set ''Iron'', Initial_shutter_mode_error 5]"
    by (auto split: sum.splits prod.splits)
  from open_sets_auto_shutter_mode [OF i]
  have "\<exists>calls. sdk_calls (camera_manager s')
                       = calls @ [Set_shutter_mode SHUTTER_MODE_AUTO]" by blast
  with r i c p show ?thesis by blast
qed

end
